theory Spec2Isabelle
  imports Main
begin

section \<open>The quiz session of \<open>page.tsx\<close>\<close>

text \<open>
  The types \<open>Option\<close> and \<open>QuizQuestion\<close> of \<open>page.tsx\<close> (lines 26 to 34). The field
  \<open>option\<close> of the source is called \<open>option_text\<close> here.
\<close>

record QuizOption =
  option_text :: string
  correct :: bool

record QuizQuestion =
  question :: string
  options :: "QuizOption list"

text \<open>
  A file as both the page and the upload route read it: its name and its size in
  bytes. \<open>UploadedFile\<close> (lines 36 to 42) is a staged file; its fields \<open>file\<close>, \<open>id\<close>,
  \<open>name\<close>, \<open>status\<close> and \<open>error\<close> carry the prefix \<open>uf_\<close> here.
\<close>

record File =
  file_name :: string
  file_size :: nat

datatype file_status = FilePending | FileUploading | FileUploaded | FileError

record UploadedFile =
  uf_file :: File
  uf_id :: string
  uf_name :: string
  uf_status :: file_status
  uf_error :: "string option"

text \<open>
  The component state of \<open>PdfQuizPage\<close> (lines 55 to 69). Each handler is a function
  from the committed state to the next committed state: the updates a handler queues
  are applied together before the next handler runs.
\<close>

record session =
  selectedFiles :: "UploadedFile list"
  vectorStoreId :: "string option"
  questions :: "QuizQuestion list"
  currentQuestionIndex :: nat
  selectedOption :: "QuizOption option"
  isAnswered :: bool
  score :: nat
  isLoading :: bool
  isUploading :: bool
  error :: "string option"
  quizStarted :: bool
  quizFinished :: bool

definition initial_session :: session where
  "initial_session =
     \<lparr>selectedFiles = [], vectorStoreId = None, questions = [], currentQuestionIndex = 0,
      selectedOption = None, isAnswered = False, score = 0, isLoading = False,
      isUploading = False, error = None, quizStarted = False, quizFinished = False\<rparr>"

text \<open>\<open>resetQuizState\<close>, lines 104 to 113.\<close>

definition resetQuizState :: "session \<Rightarrow> session" where
  "resetQuizState s =
     s\<lparr>questions := [], currentQuestionIndex := 0, selectedOption := None,
       isAnswered := False, score := 0, quizStarted := False, quizFinished := False,
       error := None\<rparr>"

text \<open>
  The argument \<open>data\<close> of \<open>handleProcessQuizData\<close> is read through the cast
  \<open>data as { quiz?: QuizQuestion[] }\<close>: it is falsy (\<open>NoData\<close>), or an object whose
  \<open>quiz\<close> member is absent or is a list of questions.
\<close>

datatype quiz_payload = NoData | Payload "QuizQuestion list option"

text \<open>
  \<open>handleProcessQuizData\<close>, lines 115 to 153. \<open>process_rejected\<close> is its \<open>else\<close>
  branch (lines 142 to 152), taken when \<open>data\<close> is falsy, has no \<open>quiz\<close>, or the
  \<open>quiz\<close> is empty.
\<close>

definition process_rejected :: "bool \<Rightarrow> session \<Rightarrow> session" where
  "process_rejected isAppending s =
     (let s1 = s\<lparr>error := Some
                 (if isAppending
                  then ''The API returned no new questions from the PDFs, or the format was unexpected.''
                  else ''No questions could be generated from these PDFs, or the data format was unexpected.'')\<rparr>
      in if \<not> isAppending then s1\<lparr>quizStarted := False, questions := []\<rparr> else s1)"

definition handleProcessQuizData :: "quiz_payload \<Rightarrow> bool \<Rightarrow> session \<Rightarrow> session" where
  "handleProcessQuizData data isAppending s =
     (case data of
        Payload (Some newQuestions) \<Rightarrow>
          if length newQuestions > 0 then
            (if isAppending
             then s\<lparr>questions := questions s @ newQuestions,
                    currentQuestionIndex := length (questions s)\<rparr>
             else s\<lparr>questions := newQuestions, currentQuestionIndex := 0\<rparr>)
            \<lparr>selectedOption := None, isAnswered := False, quizStarted := True,
             quizFinished := False, error := None\<rparr>
          else process_rejected isAppending s
      | _ \<Rightarrow> process_rejected isAppending s)"

text \<open>
  \<open>m || d\<close> for a \<open>message\<close> that is absent (\<open>None\<close>) or a string: the empty string
  is falsy.
\<close>

definition message_or :: "string option \<Rightarrow> string \<Rightarrow> string" where
  "message_or m d = (case m of None \<Rightarrow> d | Some msg \<Rightarrow> if msg = [] then d else msg)"

text \<open>
  What the \<open>try\<close> block of \<open>fetchQuizFromVectorStore\<close> (lines 246 to 267) ends with:
  \<open>Threw m\<close> when it throws a value whose \<open>message\<close> is \<open>m\<close> (the request is rejected,
  the response is not \<open>ok\<close> and line 263 throws the message computed at lines 256 to
  262, or the body is not JSON; \<open>None\<close> when the thrown value has no \<open>message\<close>), and
  \<open>Data d\<close> when the response is \<open>ok\<close> and its body parses to \<open>d\<close>.
\<close>

datatype fetch_outcome = Threw "string option" | Data quiz_payload

text \<open>
  \<open>fetchQuizFromVectorStore\<close>, lines 221 to 278, in the three parts that run in order:
  the updates before the request (lines 225 to 236), the request body (lines 238 to
  244), and the updates once the request has ended (lines 266 to 277).
  \<open>fetchQuizFromVectorStore\<close> itself is the two halves with no other handler running
  while the request is out.
\<close>

definition fetch_begin :: "bool \<Rightarrow> session \<Rightarrow> session" where
  "fetch_begin isContinuation s =
     (let s1 = s\<lparr>isLoading := True, error := None\<rparr>
      in if \<not> isContinuation
         then s1\<lparr>questions := [], currentQuestionIndex := 0, selectedOption := None,
                 isAnswered := False, score := 0, quizFinished := False\<rparr>
         else s1)"

definition requestBody :: "string \<Rightarrow> bool \<Rightarrow> session \<Rightarrow> string \<times> string list" where
  "requestBody vsId isContinuation s =
     (vsId, if isContinuation \<and> length (questions s) > 0
            then map question (questions s) else [])"

definition fetch_end :: "bool \<Rightarrow> fetch_outcome \<Rightarrow> session \<Rightarrow> session" where
  "fetch_end isContinuation outcome s =
     (case outcome of
        Data d \<Rightarrow> handleProcessQuizData d isContinuation s
      | Threw m \<Rightarrow>
          (let s1 = s\<lparr>error := Some
                      (message_or m ''An unexpected error occurred while generating the quiz.'')\<rparr>
           in if \<not> isContinuation then s1\<lparr>quizStarted := False\<rparr> else s1))
     \<lparr>isLoading := False\<rparr>"

definition fetchQuizFromVectorStore :: "bool \<Rightarrow> fetch_outcome \<Rightarrow> session \<Rightarrow> session" where
  "fetchQuizFromVectorStore isContinuation outcome s =
     fetch_end isContinuation outcome (fetch_begin isContinuation s)"

text \<open>
  \<open>!vectorStoreId\<close> for a handle that is \<open>null\<close> or a string: \<open>null\<close> and the empty
  string are falsy.
\<close>

definition no_handle :: "string option \<Rightarrow> bool" where
  "no_handle v = (case v of None \<Rightarrow> True | Some h \<Rightarrow> h = [])"

text \<open>
  \<open>handleFetchAndContinueQuiz\<close> (lines 302 to 305) and \<open>handleRestartQuizFromFiles\<close>
  (lines 307 to 310) return at once without a store handle.
\<close>

definition handleFetchAndContinueQuiz :: "fetch_outcome \<Rightarrow> session \<Rightarrow> session" where
  "handleFetchAndContinueQuiz outcome s =
     (if no_handle (vectorStoreId s) then s
      else fetchQuizFromVectorStore True outcome s)"

definition handleRestartQuizFromFiles :: "fetch_outcome \<Rightarrow> session \<Rightarrow> session" where
  "handleRestartQuizFromFiles outcome s =
     (if no_handle (vectorStoreId s) then s
      else fetchQuizFromVectorStore False outcome s)"

text \<open>
  What the \<open>try\<close> block of \<open>uploadFilesToVectorStore\<close> (lines 174 to 198) ends with:
  \<open>UploadThrew m\<close> when it throws a value whose \<open>message\<close> is \<open>m\<close> (the request is
  rejected, the response is not \<open>ok\<close>, or the body is not JSON), and \<open>UploadData v\<close>
  when the response is \<open>ok\<close> and \<open>data.vectorStoreId\<close> is \<open>v\<close> (\<open>None\<close> when the body
  has no such member).
\<close>

datatype upload_outcome = UploadThrew "string option" | UploadData "string option"

text \<open>
  \<open>uploadFilesToVectorStore\<close>, lines 155 to 219: the updates before the request (lines
  161 to 167), the updates once it has ended (lines 193 to 218), and the function
  itself, with the value it returns.
\<close>

definition upload_begin :: "session \<Rightarrow> session" where
  "upload_begin s =
     s\<lparr>isUploading := True, error := None,
       selectedFiles := map (\<lambda>f. f\<lparr>uf_status := FileUploading\<rparr>) (selectedFiles s)\<rparr>"

definition upload_end :: "upload_outcome \<Rightarrow> session \<Rightarrow> session" where
  "upload_end outcome s =
     (case outcome of
        UploadData v \<Rightarrow>
          s\<lparr>selectedFiles := map (\<lambda>f. f\<lparr>uf_status := FileUploaded\<rparr>) (selectedFiles s)\<rparr>
      | UploadThrew m \<Rightarrow>
          s\<lparr>error := Some
                (message_or m ''An unexpected error occurred while uploading the PDF files.''),
            selectedFiles :=
              map (\<lambda>f. f\<lparr>uf_status := FileError, uf_error := m\<rparr>) (selectedFiles s)\<rparr>)
     \<lparr>isUploading := False\<rparr>"

definition uploadFilesToVectorStore :: "upload_outcome \<Rightarrow> session \<Rightarrow> session \<times> string option" where
  "uploadFilesToVectorStore outcome s =
     (if length (selectedFiles s) = 0 then (s\<lparr>error := Some ''No PDF files selected.''\<rparr>, None)
      else (upload_end outcome (upload_begin s),
            case outcome of UploadData v \<Rightarrow> v | UploadThrew m \<Rightarrow> None))"

text \<open>
  \<open>handleStartQuiz\<close>, lines 280 to 300: the upload, unless a handle is there and every
  staged file is uploaded, then the first generation request.
\<close>

definition handleStartQuiz :: "upload_outcome \<Rightarrow> fetch_outcome \<Rightarrow> session \<Rightarrow> session" where
  "handleStartQuiz uploaded generated s =
     (if length (selectedFiles s) = 0
      then s\<lparr>error := Some ''Please select at least one PDF file first.''\<rparr>
      else if no_handle (vectorStoreId s)
              \<or> list_ex (\<lambda>f. uf_status f \<noteq> FileUploaded) (selectedFiles s)
      then (case uploadFilesToVectorStore uploaded s of
              (s1, currentVectorStoreId) \<Rightarrow>
                if no_handle currentVectorStoreId then s1
                else fetchQuizFromVectorStore False generated
                       (s1\<lparr>vectorStoreId := currentVectorStoreId\<rparr>))
      else fetchQuizFromVectorStore False generated s)"

text \<open>\<open>handleUploadNewFiles\<close>, lines 312 to 316.\<close>

definition handleUploadNewFiles :: "session \<Rightarrow> session" where
  "handleUploadNewFiles s = (resetQuizState s)\<lparr>selectedFiles := [], vectorStoreId := None\<rparr>"

text \<open>\<open>handleOptionSelect\<close>, lines 326 to 333.\<close>

definition handleOptionSelect :: "QuizOption \<Rightarrow> session \<Rightarrow> session" where
  "handleOptionSelect opt s =
     (if isAnswered s then s
      else (let s1 = s\<lparr>selectedOption := Some opt, isAnswered := True\<rparr>
            in if correct opt then s1\<lparr>score := score s + 1\<rparr> else s1))"

text \<open>
  \<open>handleNextQuestion\<close>, lines 335 to 343. The comparison is the source's, on integers:
  \<open>questions.length - 1\<close> is \<open>-1\<close> for an empty list.
\<close>

definition handleNextQuestion :: "session \<Rightarrow> session" where
  "handleNextQuestion s =
     (if int (currentQuestionIndex s) < int (length (questions s)) - 1
      then s\<lparr>currentQuestionIndex := currentQuestionIndex s + 1,
             selectedOption := None, isAnswered := False\<rparr>
      else s\<lparr>quizFinished := True\<rparr>)"

subsection \<open>Runs of the session\<close>

text \<open>
  The operations of a quiz run: selecting an option, advancing, and asking for more
  questions. Anything that starts a new run (\<open>resetQuizState\<close>, a fetch that is not a
  continuation) is not among them.
\<close>

datatype quiz_op = SelectOption QuizOption | NextQuestion | MoreQuestions fetch_outcome

fun run_op :: "session \<Rightarrow> quiz_op \<Rightarrow> session" where
  "run_op s (SelectOption opt) = handleOptionSelect opt s"
| "run_op s NextQuestion = handleNextQuestion s"
| "run_op s (MoreQuestions outcome) = handleFetchAndContinueQuiz outcome s"

fun run_ops :: "session \<Rightarrow> quiz_op list \<Rightarrow> session" where
  "run_ops s [] = s"
| "run_ops s (op # ops) = run_ops (run_op s op) ops"

text \<open>
  \<open>scoring_selection s op\<close>: the operation selects a correct option while the current
  question has no answer yet. \<open>answers s ops\<close> is the record of a run: for every
  selection made while the current question had no answer, the index of that question
  and whether the option was correct. The questions answered during the run are the
  indices in this record.
\<close>

fun scoring_selection :: "session \<Rightarrow> quiz_op \<Rightarrow> bool" where
  "scoring_selection s (SelectOption opt) = (\<not> isAnswered s \<and> correct opt)"
| "scoring_selection s _ = False"

fun answer_of :: "session \<Rightarrow> quiz_op \<Rightarrow> (nat \<times> bool) list" where
  "answer_of s (SelectOption opt) =
     (if isAnswered s then [] else [(currentQuestionIndex s, correct opt)])"
| "answer_of s _ = []"

fun answers :: "session \<Rightarrow> quiz_op list \<Rightarrow> (nat \<times> bool) list" where
  "answers s [] = []"
| "answers s (op # ops) = answer_of s op @ answers (run_op s op) ops"

text \<open>
  The place of a session in its quiz: twice the index of the current question, plus
  one once that question is answered.
\<close>

definition place :: "session \<Rightarrow> nat" where
  "place s = 2 * currentQuestionIndex s + (if isAnswered s then 1 else 0)"

text \<open>
  The states the handlers can produce from the initial state of the component. A
  request is two steps, so that other handlers may run while it is out; \<open>r_files\<close>
  stands for \<open>handleFileChange\<close> and \<open>removeFile\<close> (lines 71 to 102), \<open>r_store\<close> for
  every \<open>setVectorStoreId\<close>.
\<close>

inductive reachable :: "session \<Rightarrow> bool" where
  r_init: "reachable initial_session"
| r_select: "reachable s \<Longrightarrow> reachable (handleOptionSelect opt s)"
| r_next: "reachable s \<Longrightarrow> reachable (handleNextQuestion s)"
| r_process: "reachable s \<Longrightarrow> reachable (handleProcessQuizData d isAppending s)"
| r_reset: "reachable s \<Longrightarrow> reachable (resetQuizState s)"
| r_fetch_begin: "reachable s \<Longrightarrow> reachable (fetch_begin isContinuation s)"
| r_fetch_end: "reachable s \<Longrightarrow> reachable (fetch_end isContinuation outcome s)"
| r_store: "reachable s \<Longrightarrow> reachable (s\<lparr>vectorStoreId := v\<rparr>)"
| r_files: "reachable s \<Longrightarrow> reachable (s\<lparr>selectedFiles := fs, error := e\<rparr>)"
| r_upload_begin: "reachable s \<Longrightarrow> reachable (upload_begin s)"
| r_upload_end: "reachable s \<Longrightarrow> reachable (upload_end uploaded s)"

section \<open>Values shared by the two route handlers\<close>

text \<open>
  A parsed JSON value. An object is its list of members in source order; a later member
  with the same key overrides an earlier one, as in \<open>JSON.parse\<close>. Numbers are only
  tested for truthiness and are kept as integers.
\<close>

datatype json =
  JNull | JBool bool | JNum int | JStr string | JArr "json list" | JObj "(string \<times> json) list"

definition property :: "json \<Rightarrow> string \<Rightarrow> json option" where
  "property j k = (case j of JObj kvs \<Rightarrow> map_of (rev kvs) k | _ \<Rightarrow> None)"

fun truthy :: "json \<Rightarrow> bool" where
  "truthy JNull = False"
| "truthy (JBool b) = b"
| "truthy (JNum n) = (n \<noteq> 0)"
| "truthy (JStr s) = (s \<noteq> [])"
| "truthy (JArr _) = True"
| "truthy (JObj _) = True"

text \<open>
  A thrown value, as the \<open>catch\<close> blocks read it: its \<open>message\<close>, absent or a string,
  and its \<open>status\<close>. The test \<open>"status" in error\<close> asks whether the property is there,
  not what it holds: it is absent, or there and \<open>undefined\<close> (the client's connection
  errors), or there and a number.
\<close>

datatype status_property = NoStatus | StatusUndefined | StatusNumber nat

datatype js_error = Err (err_message: "string option") (err_status: status_property)

text \<open>Decimal digits of a number, for the template strings that print one.\<close>

fun string_of_nat :: "nat \<Rightarrow> string" where
  "string_of_nat n =
     (if n < 10 then [''0123456789'' ! n]
      else string_of_nat (n div 10) @ [''0123456789'' ! (n mod 10)])"

declare string_of_nat.simps [simp del]

text \<open>A status code that may be \<open>undefined\<close>, as a template string prints it.\<close>

definition status_text :: "nat option \<Rightarrow> string" where
  "status_text st = (case st of None \<Rightarrow> ''undefined'' | Some n \<Rightarrow> string_of_nat n)"

text \<open>\<open>s.includes(t)\<close> and \<open>s.endsWith(t)\<close>.\<close>

fun string_includes :: "string \<Rightarrow> string \<Rightarrow> bool" where
  "string_includes [] t = (t = [])"
| "string_includes (c # cs) t = (take (length t) (c # cs) = t \<or> string_includes cs t)"

definition endsWith :: "string \<Rightarrow> string \<Rightarrow> bool" where
  "endsWith s t = (length t \<le> length s \<and> drop (length s - length t) s = t)"

text \<open>
  \<open>toLowerCase\<close> on the letters A to Z; every other character is kept as it is.
\<close>

definition lower_char :: "char \<Rightarrow> char" where
  "lower_char c =
     (case map_of (zip ''ABCDEFGHIJKLMNOPQRSTUVWXYZ'' ''abcdefghijklmnopqrstuvwxyz'') c of
        Some d \<Rightarrow> d
      | None \<Rightarrow> c)"

definition toLowerCase :: "string \<Rightarrow> string" where
  "toLowerCase s = map lower_char s"

text \<open>
  The bodies of the responses of both handlers, by the members they carry, and a
  response with its HTTP status (200 where the source gives none). The diagnostic
  member \<open>error\<close> of the error bodies (the stack in development builds) and the
  \<open>details\<close> and \<open>errors\<close> members are left out.
\<close>

datatype body =
    Message string
  | QuizBody "QuizQuestion list"
  | Uploaded (up_store: string) (up_message: string) (up_files: nat) (up_batch: string)
  | InProgress (ip_message: string) (ip_store: string) (ip_batch: string)

record response =
  status :: nat
  body :: body

text \<open>
  \<open>new Response(body, {status})\<close> with a body and a status that is computed: an
  \<open>undefined\<close> status (\<open>None\<close>) gives 200; the constructor throws a \<open>RangeError\<close> for
  a status outside 200 to 599 and a \<open>TypeError\<close> for a status that allows no body (204,
  205, 304). \<open>None\<close> is the constructor throwing: the handler then gives no response
  of its own.
\<close>

definition new_Response :: "nat option \<Rightarrow> body \<Rightarrow> response option" where
  "new_Response st b =
     (case st of
        None \<Rightarrow> Some \<lparr>status = 200, body = b\<rparr>
      | Some n \<Rightarrow>
          if 200 \<le> n \<and> n \<le> 599 \<and> n \<noteq> 204 \<and> n \<noteq> 205 \<and> n \<noteq> 304
          then Some \<lparr>status = n, body = b\<rparr> else None)"

text \<open>
  What a handler does besides answering: the calls of the provider's client, in order,
  and the lines written to the console.
\<close>

datatype remote_call =
    VectorStoresCreate
  | FilesCreate File
  | FileBatchesCreateAndPoll string "string list"
  | FilesDel string
  | VectorStoresDel string
  | VectorStoresRetrieve json
  | VectorStoresFilesList json
  | AssistantsCreate json
  | ThreadsCreate
  | MessagesCreate string "json list"
  | RunsCreateAndPoll string string
  | MessagesList string
  | CompletionsParse
  | AssistantsDel string
  | ThreadsDel string

datatype event = Call remote_call | ConsoleError string | ConsoleWarn string

fun is_call :: "event \<Rightarrow> bool" where
  "is_call (Call _) = True"
| "is_call _ = False"

text \<open>
  How a \<open>try\<close> block ends: with a response, or with a thrown value, which is an error of
  the client or a \<open>ZodError\<close>.
\<close>

datatype thrown = Js js_error | Zod

datatype 'e ending = Returned response | Threw_up 'e

section \<open>The question generation route, \<open>api/chat/route.ts\<close>\<close>

text \<open>
  \<open>QuizOptionSchema\<close>, \<open>QuizQuestionSchema\<close> and \<open>QuizSchema\<close> (lines 12 to 30), as
  the result of \<open>parse\<close>: the validated value, or \<open>None\<close> where \<open>parse\<close> throws a
  \<open>ZodError\<close>. A \<open>z.object\<close> accepts an object only, reads the members it names and
  drops the others; \<open>z.string()\<close> accepts a string, \<open>z.boolean()\<close> a boolean,
  \<open>z.array\<close> an array all of whose elements parse.
\<close>

definition QuizOptionSchema :: "json \<Rightarrow> QuizOption option" where
  "QuizOptionSchema j =
     (case j of
        JObj kvs \<Rightarrow>
          (case (property j ''option'', property j ''correct'') of
             (Some (JStr t), Some (JBool c)) \<Rightarrow>
               if length t \<ge> 1 then Some \<lparr>option_text = t, correct = c\<rparr> else None
           | _ \<Rightarrow> None)
      | _ \<Rightarrow> None)"

definition QuizQuestionSchema :: "json \<Rightarrow> QuizQuestion option" where
  "QuizQuestionSchema j =
     (case j of
        JObj kvs \<Rightarrow>
          (case (property j ''question'', property j ''options'') of
             (Some (JStr q), Some (JArr os)) \<Rightarrow>
               (case those (map QuizOptionSchema os) of
                  Some opts \<Rightarrow>
                    if length q \<ge> 1 \<and> length os \<ge> 2 \<and> length os \<le> 4
                    then Some \<lparr>question = q, options = opts\<rparr> else None
                | None \<Rightarrow> None)
           | _ \<Rightarrow> None)
      | _ \<Rightarrow> None)"

definition QuizSchema :: "json \<Rightarrow> QuizQuestion list option" where
  "QuizSchema j =
     (case j of
        JObj kvs \<Rightarrow>
          (case property j ''quiz'' of
             Some (JArr qs) \<Rightarrow>
               (case those (map QuizQuestionSchema qs) of
                  Some quiz \<Rightarrow>
                    if length qs \<ge> 1 \<and> length qs \<le> 10 then Some quiz else None
                | None \<Rightarrow> None)
           | _ \<Rightarrow> None)
      | _ \<Rightarrow> None)"

text \<open>
  The provider as one request meets it: the outcome of each call the handler can make
  (a call is made at most once). \<open>files_list\<close> is the number of files of the store;
  \<open>messages_list\<close> is the text of the first content part of the assistant's message,
  \<open>None\<close> without such a message or part; \<open>json_parse\<close> stands for lines 184 to
  189 (the text between the first and the last brace, or the whole text, through
  \<open>JSON.parse\<close>), \<open>None\<close> where it throws; \<open>completions_parse\<close> is
  \<open>completion.choices[0]?.message?.parsed\<close>, or what the call throws, which may be a
  \<open>ZodError\<close> of the client's own parsing. \<open>null_body_message\<close> is the message of
  the \<open>TypeError\<close> that the engine throws when line 37 destructures \<open>null\<close>.
\<close>

record gen_env =
  null_body_message :: string
  retrieve :: "js_error option"
  files_list :: "js_error + nat"
  assistants_create :: "js_error + string"
  threads_create :: "js_error + string"
  messages_create :: "js_error option"
  runs_createAndPoll :: "js_error + string"
  messages_list :: "js_error + string option"
  json_parse :: "string \<Rightarrow> json option"
  completions_parse :: "thrown + json option"
  assistants_del :: "js_error option"
  threads_del :: "js_error option"

text \<open>Lines 224 to 225 and 232 to 233: the two deletions, neither inside a \<open>try\<close>.\<close>

definition delete_transient :: "gen_env \<Rightarrow> string \<Rightarrow> string \<Rightarrow> event list \<times> js_error option" where
  "delete_transient env aid tid =
     (case assistants_del env of
        Some e \<Rightarrow> ([Call (AssistantsDel aid)], Some e)
      | None \<Rightarrow>
          (case threads_del env of
             Some e \<Rightarrow> ([Call (AssistantsDel aid), Call (ThreadsDel tid)], Some e)
           | None \<Rightarrow> ([Call (AssistantsDel aid), Call (ThreadsDel tid)], None)))"

text \<open>Lines 220 to 229: validation, clean-up, the successful response.\<close>

definition validate_reply :: "gen_env \<Rightarrow> string \<Rightarrow> string \<Rightarrow> json \<Rightarrow> event list \<times> thrown ending" where
  "validate_reply env aid tid parsedResponse =
     (case QuizSchema parsedResponse of
        None \<Rightarrow> ([], Threw_up Zod)
      | Some validatedQuiz \<Rightarrow>
          (case delete_transient env aid tid of
             (evs, Some e) \<Rightarrow> (evs, Threw_up (Js e))
           | (evs, None) \<Rightarrow> (evs, Returned \<lparr>status = 200, body = QuizBody validatedQuiz\<rparr>)))"

text \<open>Lines 180 to 218: the reply as JSON, or else the structured fallback.\<close>

definition parse_reply :: "gen_env \<Rightarrow> string \<Rightarrow> string \<Rightarrow> string \<Rightarrow> event list \<times> thrown ending" where
  "parse_reply env aid tid responseText =
     (case json_parse env responseText of
        Some parsedResponse \<Rightarrow> validate_reply env aid tid parsedResponse
      | None \<Rightarrow>
          (let evs = [ConsoleError ''Failed to parse assistant response:'', Call CompletionsParse]
           in case completions_parse env of
                Inl t \<Rightarrow> (evs, Threw_up t)
              | Inr None \<Rightarrow>
                  (evs, Threw_up (Js (Err (Some ''Failed to generate structured quiz response'')
                                         NoStatus)))
              | Inr (Some parsed) \<Rightarrow>
                  (case validate_reply env aid tid parsed of (evs', r) \<Rightarrow> (evs @ evs', r))))"

text \<open>Lines 165 to 236: after the run has been polled.\<close>

definition after_run :: "gen_env \<Rightarrow> string \<Rightarrow> string \<Rightarrow> string \<Rightarrow> event list \<times> thrown ending" where
  "after_run env aid tid run_status =
     (if run_status = ''completed'' then
        (case messages_list env of
           Inl e \<Rightarrow> ([Call (MessagesList tid)], Threw_up (Js e))
         | Inr None \<Rightarrow>
             ([Call (MessagesList tid)],
              Threw_up (Js (Err (Some ''No response from assistant'') NoStatus)))
         | Inr (Some responseText) \<Rightarrow>
             (case parse_reply env aid tid responseText of
                (evs, r) \<Rightarrow> (Call (MessagesList tid) # evs, r)))
      else
        (case delete_transient env aid tid of
           (evs, Some e) \<Rightarrow> (evs, Threw_up (Js e))
         | (evs, None) \<Rightarrow>
             (evs, Threw_up (Js (Err (Some (''Assistant run failed with status: '' @ run_status))
                                    NoStatus)))))"

text \<open>
  Lines 101 to 163: the assistant, the thread, the message and the run. The prompt is
  a function of \<open>existingQuestions\<close>, which the event of the message records.
\<close>

definition generate :: "gen_env \<Rightarrow> json \<Rightarrow> json list \<Rightarrow> event list \<times> thrown ending" where
  "generate env vsId existingQuestions =
     (case assistants_create env of
        Inl e \<Rightarrow> ([Call (AssistantsCreate vsId)], Threw_up (Js e))
      | Inr aid \<Rightarrow>
     (case threads_create env of
        Inl e \<Rightarrow> ([Call (AssistantsCreate vsId), Call ThreadsCreate], Threw_up (Js e))
      | Inr tid \<Rightarrow>
     (case messages_create env of
        Some e \<Rightarrow>
          ([Call (AssistantsCreate vsId), Call ThreadsCreate,
            Call (MessagesCreate tid existingQuestions)], Threw_up (Js e))
      | None \<Rightarrow>
     (case runs_createAndPoll env of
        Inl e \<Rightarrow>
          ([Call (AssistantsCreate vsId), Call ThreadsCreate,
            Call (MessagesCreate tid existingQuestions), Call (RunsCreateAndPoll tid aid)],
           Threw_up (Js e))
      | Inr run_status \<Rightarrow>
          (case after_run env aid tid run_status of
             (evs, r) \<Rightarrow>
               ([Call (AssistantsCreate vsId), Call ThreadsCreate,
                 Call (MessagesCreate tid existingQuestions),
                 Call (RunsCreateAndPoll tid aid)] @ evs, r))))))"

text \<open>Lines 65 to 99: the store must resolve and hold a file.\<close>

definition check_store :: "gen_env \<Rightarrow> json \<Rightarrow> json list \<Rightarrow> event list \<times> thrown ending" where
  "check_store env vsId existingQuestions =
     (case retrieve env of
        Some e \<Rightarrow>
          ([Call (VectorStoresRetrieve vsId)],
           Returned \<lparr>status = 404,
             body = Message ''Vector store not found or inaccessible. Please upload files again.''\<rparr>)
      | None \<Rightarrow>
     (case files_list env of
        Inl e \<Rightarrow>
          ([Call (VectorStoresRetrieve vsId), Call (VectorStoresFilesList vsId)], Threw_up (Js e))
      | Inr n \<Rightarrow>
          if n = 0 then
            ([Call (VectorStoresRetrieve vsId), Call (VectorStoresFilesList vsId)],
             Returned \<lparr>status = 400,
               body = Message ''No files found in the vector store. Please upload PDF files first.''\<rparr>)
          else
            (case generate env vsId existingQuestions of
               (evs, r) \<Rightarrow>
                 ([Call (VectorStoresRetrieve vsId), Call (VectorStoresFilesList vsId)] @ evs, r))))"

text \<open>
  Lines 35 to 63. The request body is what \<open>req.json()\<close> gives, or the error it
  throws. Destructuring \<open>null\<close> throws a \<open>TypeError\<close>; any other value that is not
  an object has neither member. A missing \<open>existingQuestions\<close> defaults to the empty
  array.
\<close>

definition generate_try :: "gen_env \<Rightarrow> js_error + json \<Rightarrow> event list \<times> thrown ending" where
  "generate_try env req =
     (case req of
        Inl e \<Rightarrow> ([], Threw_up (Js e))
      | Inr JNull \<Rightarrow> ([], Threw_up (Js (Err (Some (null_body_message env)) NoStatus)))
      | Inr req_body \<Rightarrow>
          (case property req_body ''vectorStoreId'' of
             None \<Rightarrow>
               ([], Returned \<lparr>status = 400,
                  body = Message ''Vector store ID is required. Please upload PDF files first.''\<rparr>)
           | Some vsId \<Rightarrow>
               if \<not> truthy vsId then
                 ([], Returned \<lparr>status = 400,
                    body = Message ''Vector store ID is required. Please upload PDF files first.''\<rparr>)
               else
                 (case (case property req_body ''existingQuestions'' of
                          None \<Rightarrow> JArr [] | Some v \<Rightarrow> v) of
                    JArr existingQuestions \<Rightarrow> check_store env vsId existingQuestions
                  | _ \<Rightarrow>
                      ([], Returned \<lparr>status = 400,
                         body = Message ''existingQuestions must be an array of strings.''\<rparr>))))"

text \<open>
  Lines 237 to 283: the \<open>catch\<close> block. \<open>status_code\<close> is \<open>statusCode\<close> after lines 242
  to 251: 500 unless the thrown value has a \<open>status\<close> property, then what that holds.
\<close>

definition status_code :: "status_property \<Rightarrow> nat option" where
  "status_code st =
     (case st of NoStatus \<Rightarrow> Some 500 | StatusUndefined \<Rightarrow> None | StatusNumber n \<Rightarrow> Some n)"

definition generate_catch :: "thrown \<Rightarrow> response option" where
  "generate_catch t =
     (case t of
        Zod \<Rightarrow> Some \<lparr>status = 400, body = Message ''Invalid quiz format generated by AI.''\<rparr>
      | Js (Err m st) \<Rightarrow>
          (let errorMessage =
                 (case m of
                    Some msg \<Rightarrow> msg
                  | None \<Rightarrow> ''An unexpected error occurred while generating the quiz.'')
           in case st of
                NoStatus \<Rightarrow> new_Response (status_code st) (Message errorMessage)
              | _ \<Rightarrow>
                  new_Response (status_code st)
                    (Message (message_or m
                       (''OpenAI API Error: '' @ status_text (status_code st))))))"

text \<open>
  \<open>POST\<close> of the generation route: the events and the response, \<open>None\<close> where the
  handler throws instead of answering.
\<close>

definition POST_generate :: "gen_env \<Rightarrow> js_error + json \<Rightarrow> event list \<times> response option" where
  "POST_generate env req =
     (case generate_try env req of
        (evs, Returned r) \<Rightarrow> (evs, Some r)
      | (evs, Threw_up t) \<Rightarrow> (evs @ [ConsoleError ''API Error in /api/chat:''], generate_catch t))"

section \<open>The upload route\<close>

text \<open>
  The file of upload handlers holds two of them: the first (lines 12 to 152) checks
  that the batch is not empty and that every name ends in \<open>.pdf\<close>; the second (lines
  188 to 402) also limits the number of files, the size of each and the total size,
  logs a failed file upload under a message of its own, and maps "too large" errors to
  status 400. The attach step and \<open>cleanupResources\<close> are the same text in both.
\<close>

definition MAX_FILE_SIZE :: nat where
  "MAX_FILE_SIZE = 20 * 1024 * 1024"

definition MAX_TOTAL_SIZE :: nat where
  "MAX_TOTAL_SIZE = 200 * 1024 * 1024"

text \<open>
  The provider as one upload request meets it. A file upload depends on the number of
  files uploaded before it and on the file; the attach call gives the identifier and
  the status of the batch after polling; a deletion depends on its position in the
  clean-up loop and on the identifier.
\<close>

record upload_env =
  vectorStores_create :: "js_error + string"
  files_create :: "nat \<Rightarrow> File \<Rightarrow> js_error + string"
  fileBatches_createAndPoll :: "string \<Rightarrow> string list \<Rightarrow> js_error + string \<times> string"
  files_del :: "nat \<Rightarrow> string \<Rightarrow> js_error option"
  vectorStores_del :: "string \<Rightarrow> js_error option"

text \<open>
  \<open>cleanupResources\<close> (lines 155 to 171 and 418 to 434): each deletion in a \<open>try\<close> of its
  own, a failure written with \<open>console.warn\<close>. It has no way to throw.
\<close>

fun delete_files :: "upload_env \<Rightarrow> nat \<Rightarrow> string list \<Rightarrow> event list" where
  "delete_files env i [] = []"
| "delete_files env i (fileId # fileIds) =
     Call (FilesDel fileId)
     # (case files_del env i fileId of
          None \<Rightarrow> []
        | Some e \<Rightarrow> [ConsoleWarn (''Failed to delete OpenAI file '' @ fileId @ '':'')])
     @ delete_files env (i + 1) fileIds"

definition cleanupResources :: "upload_env \<Rightarrow> string \<Rightarrow> string list \<Rightarrow> event list" where
  "cleanupResources env vsId fileIds =
     delete_files env 0 fileIds
     @ Call (VectorStoresDel vsId)
     # (case vectorStores_del env vsId of
          None \<Rightarrow> []
        | Some e \<Rightarrow> [ConsoleWarn (''Failed to delete vector store '' @ vsId @ '':'')])"

text \<open>
  The attach step (lines 69 to 114 and 295 to 340): the batch call and the three
  branches on the status of the batch.
\<close>

definition attach ::
  "upload_env \<Rightarrow> string \<Rightarrow> File list \<Rightarrow> string list \<Rightarrow> event list \<times> js_error ending" where
  "attach env vsId files uploadedFileIds =
     (case fileBatches_createAndPoll env vsId uploadedFileIds of
        Inl e \<Rightarrow> ([Call (FileBatchesCreateAndPoll vsId uploadedFileIds)], Threw_up e)
      | Inr (batchId, batch_status) \<Rightarrow>
          if batch_status = ''completed'' then
            ([Call (FileBatchesCreateAndPoll vsId uploadedFileIds)],
             Returned \<lparr>status = 200,
               body = Uploaded vsId
                 (''Successfully uploaded '' @ string_of_nat (length files)
                    @ '' PDF files to vector store.'')
                 (length files) batchId\<rparr>)
          else if batch_status = ''failed'' then
            (Call (FileBatchesCreateAndPoll vsId uploadedFileIds)
               # cleanupResources env vsId uploadedFileIds,
             Returned \<lparr>status = 500,
               body = Message ''File upload batch failed. Please try again with different files.''\<rparr>)
          else
            ([Call (FileBatchesCreateAndPoll vsId uploadedFileIds)],
             Returned \<lparr>status = 200,
               body = InProgress (''File upload is still in progress. Status: '' @ batch_status)
                        vsId batchId\<rparr>))"

text \<open>
  The upload loop of the second handler (lines 278 to 293), from the identifiers
  collected so far: the events, the identifiers collected when it ends, and the error
  it throws, if any. The loop of the first handler (lines 59 to 67) throws the
  provider's error itself and logs nothing.
\<close>

fun upload_files_2 ::
  "upload_env \<Rightarrow> File list \<Rightarrow> string list \<Rightarrow> event list \<times> string list \<times> js_error option" where
  "upload_files_2 env [] uploadedFileIds = ([], uploadedFileIds, None)"
| "upload_files_2 env (file # files) uploadedFileIds =
     (case files_create env (length uploadedFileIds) file of
        Inl e \<Rightarrow>
          ([Call (FilesCreate file),
            ConsoleError (''Failed to upload file '' @ file_name file @ '':'')],
           uploadedFileIds,
           Some (Err (Some (''Failed to upload file '' @ file_name file @ ''. Please try again.''))
                   NoStatus))
      | Inr fileId \<Rightarrow>
          (case upload_files_2 env files (uploadedFileIds @ [fileId]) of
             (evs, ids, r) \<Rightarrow> (Call (FilesCreate file) # evs, ids, r)))"

fun upload_files_1 ::
  "upload_env \<Rightarrow> File list \<Rightarrow> string list \<Rightarrow> event list \<times> string list \<times> js_error option" where
  "upload_files_1 env [] uploadedFileIds = ([], uploadedFileIds, None)"
| "upload_files_1 env (file # files) uploadedFileIds =
     (case files_create env (length uploadedFileIds) file of
        Inl e \<Rightarrow> ([Call (FilesCreate file)], uploadedFileIds, Some e)
      | Inr fileId \<Rightarrow>
          (case upload_files_1 env files (uploadedFileIds @ [fileId]) of
             (evs, ids, r) \<Rightarrow> (Call (FilesCreate file) # evs, ids, r)))"

text \<open>
  The inner \<open>try\<close> with its \<open>catch\<close> (lines 58 to 119 and 277 to 345), given the result
  of the upload loop: whatever is thrown inside leads to \<open>cleanupResources\<close> and is
  thrown again.
\<close>

definition upload_and_attach ::
  "upload_env \<Rightarrow> string \<Rightarrow> File list \<Rightarrow> event list \<times> string list \<times> js_error option
     \<Rightarrow> event list \<times> js_error ending" where
  "upload_and_attach env vsId files uploaded =
     (case uploaded of
        (evs, ids, Some e) \<Rightarrow> (evs @ cleanupResources env vsId ids, Threw_up e)
      | (evs, ids, None) \<Rightarrow>
          (case attach env vsId files ids of
             (evs', Threw_up e) \<Rightarrow> (evs @ evs' @ cleanupResources env vsId ids, Threw_up e)
           | (evs', Returned r) \<Rightarrow> (evs @ evs', Returned r)))"

text \<open>The outer \<open>catch\<close> of the first handler (lines 120 to 151).\<close>

definition upload_catch_1 :: "js_error \<Rightarrow> response option" where
  "upload_catch_1 e =
     (case e of
        Err m st \<Rightarrow>
          (let errorMessage =
                 (case m of
                    Some msg \<Rightarrow> msg
                  | None \<Rightarrow> ''An unexpected error occurred during file upload.'')
           in case st of
                NoStatus \<Rightarrow> new_Response (status_code st) (Message errorMessage)
              | _ \<Rightarrow>
                  new_Response (status_code st)
                    (Message (message_or m
                       (''OpenAI API Error: '' @ status_text (status_code st))))))"

text \<open>The outer \<open>catch\<close> of the second handler (lines 346 to 401).\<close>

definition upload_catch_2 :: "js_error \<Rightarrow> response option" where
  "upload_catch_2 e =
     (case e of
        Err m st \<Rightarrow>
          (let errorMessage0 =
                 (case m of
                    Some msg \<Rightarrow> msg
                  | None \<Rightarrow> ''An unexpected error occurred during file upload.'');
               (errorMessage, statusCode) =
                 (case st of
                    NoStatus \<Rightarrow> (errorMessage0, status_code st)
                  | _ \<Rightarrow>
                      if status_code st = Some 413 \<or> string_includes errorMessage0 ''too large''
                      then (''One or more files are too large. Please reduce file sizes and try again.'',
                            Some 400)
                      else (message_or m (''OpenAI API Error: '' @ status_text (status_code st)),
                            status_code st))
           in if string_includes errorMessage ''Request Entity Too Large''
                 \<or> string_includes errorMessage ''413'' \<or> statusCode = Some 413
              then new_Response (Some 400)
                     (Message ''Files are too large. Please reduce file sizes and try again.'')
              else new_Response statusCode (Message errorMessage)))"

text \<open>
  The validation loops: lines 32 to 44 of the first handler, lines 221 to 250 of the
  second, which also adds up the sizes. Each returns at the first file it refuses.
\<close>

definition has_pdf_extension :: "File \<Rightarrow> bool" where
  "has_pdf_extension file = endsWith (toLowerCase (file_name file)) ''.pdf''"

definition not_a_pdf :: "File \<Rightarrow> response" where
  "not_a_pdf file =
     \<lparr>status = 400,
      body = Message (''File '' @ file_name file @ '' is not a PDF. Please upload only PDF files.'')\<rparr>"

fun check_files_1 :: "File list \<Rightarrow> response option" where
  "check_files_1 [] = None"
| "check_files_1 (file # files) =
     (if \<not> has_pdf_extension file then Some (not_a_pdf file) else check_files_1 files)"

fun check_files_2 :: "File list \<Rightarrow> nat \<Rightarrow> response + nat" where
  "check_files_2 [] totalSize = Inr totalSize"
| "check_files_2 (file # files) totalSize =
     (if \<not> has_pdf_extension file then Inl (not_a_pdf file)
      else if file_size file > MAX_FILE_SIZE then
        Inl \<lparr>status = 400,
             body = Message (''File '' @ file_name file
                       @ '' is too large. Maximum file size is 10MB.'')\<rparr>
      else check_files_2 files (totalSize + file_size file))"

text \<open>
  After validation, both handlers create the store and run the inner \<open>try\<close>; they
  differ in the upload loop and in the outer \<open>catch\<close>.
\<close>

definition store_and_upload ::
  "(upload_env \<Rightarrow> File list \<Rightarrow> string list \<Rightarrow> event list \<times> string list \<times> js_error option)
     \<Rightarrow> (js_error \<Rightarrow> response option) \<Rightarrow> upload_env \<Rightarrow> File list
     \<Rightarrow> event list \<times> response option" where
  "store_and_upload upload_files upload_catch env files =
     (case vectorStores_create env of
        Inl e \<Rightarrow>
          ([Call VectorStoresCreate, ConsoleError ''API Error in /api/upload:''], upload_catch e)
      | Inr vsId \<Rightarrow>
          (case upload_and_attach env vsId files (upload_files env files []) of
             (evs, Returned r) \<Rightarrow> (Call VectorStoresCreate # evs, Some r)
           | (evs, Threw_up e) \<Rightarrow>
               (Call VectorStoresCreate # evs @ [ConsoleError ''API Error in /api/upload:''],
                upload_catch e)))"

text \<open>
  \<open>POST\<close> of the two handlers. The request is the list \<open>formData.getAll("files")\<close>, or
  the error that reading the form data throws. The result is the events and the
  response, \<open>None\<close> where the handler throws instead of answering.
\<close>

definition no_files :: response where
  "no_files =
     \<lparr>status = 400,
      body = Message ''No PDF files were uploaded. Please select at least one PDF file.''\<rparr>"

definition POST_upload_1 ::
  "upload_env \<Rightarrow> js_error + File list \<Rightarrow> event list \<times> response option" where
  "POST_upload_1 env req =
     (case req of
        Inl e \<Rightarrow> ([ConsoleError ''API Error in /api/upload:''], upload_catch_1 e)
      | Inr files \<Rightarrow>
          if length files = 0 then ([], Some no_files)
          else (case check_files_1 files of
                  Some r \<Rightarrow> ([], Some r)
                | None \<Rightarrow> store_and_upload upload_files_1 upload_catch_1 env files))"

definition POST_upload_2 ::
  "upload_env \<Rightarrow> js_error + File list \<Rightarrow> event list \<times> response option" where
  "POST_upload_2 env req =
     (case req of
        Inl e \<Rightarrow> ([ConsoleError ''API Error in /api/upload:''], upload_catch_2 e)
      | Inr files \<Rightarrow>
          if length files = 0 then ([], Some no_files)
          else if length files > 10 then
            ([], Some \<lparr>status = 400,
                  body = Message ''Too many files. Please upload a maximum of 10 PDF files.''\<rparr>)
          else (case check_files_2 files 0 of
                  Inl r \<Rightarrow> ([], Some r)
                | Inr totalSize \<Rightarrow>
                    if totalSize > MAX_TOTAL_SIZE then
                      ([], Some \<lparr>status = 400,
                            body = Message ''Total upload size is too large. Maximum total size is 50MB.''\<rparr>)
                    else store_and_upload upload_files_2 upload_catch_2 env files))"

text \<open>
  Words for the statements about the upload handlers. A batch is refused locally when
  the handler answers 400 with a message and nothing else has happened: no call of the
  provider, no line on the console. A deletion is a call of \<open>files.del\<close> or of
  \<open>vectorStores.del\<close>.
\<close>

definition refused_locally :: "event list \<times> response option \<Rightarrow> bool" where
  "refused_locally out =
     (fst out = []
      \<and> (case snd out of
            None \<Rightarrow> False
          | Some r \<Rightarrow> status r = 400 \<and> (case body r of Message _ \<Rightarrow> True | _ \<Rightarrow> False)))"

fun is_deletion :: "event \<Rightarrow> bool" where
  "is_deletion (Call (FilesDel _)) = True"
| "is_deletion (Call (VectorStoresDel _)) = True"
| "is_deletion _ = False"

definition total_size :: "File list \<Rightarrow> nat" where
  "total_size files = sum_list (map file_size files)"

text \<open>A batch that breaks none of the constraints of the second handler.\<close>

definition passes :: "File list \<Rightarrow> bool" where
  "passes files =
     (files \<noteq> [] \<and> length files \<le> 10
      \<and> list_all (\<lambda>f. has_pdf_extension f \<and> file_size f \<le> MAX_FILE_SIZE) files
      \<and> total_size files \<le> MAX_TOTAL_SIZE)"

text \<open>Sample batches and providers.\<close>

definition pdf :: "string \<Rightarrow> nat \<Rightarrow> File" where
  "pdf n megabytes = \<lparr>file_name = n, file_size = megabytes * 1024 * 1024\<rparr>"

definition two_pdfs :: "File list" where
  "two_pdfs = [pdf ''a.pdf'' 3, pdf ''B.PDF'' 5]"

definition provider :: "string \<Rightarrow> upload_env" where
  "provider batch_status =
     \<lparr>vectorStores_create = Inr ''vs_1'',
      files_create = (\<lambda>i file. Inr (''id_'' @ file_name file)),
      fileBatches_createAndPoll = (\<lambda>vsId ids. Inr (''batch_1'', batch_status)),
      files_del = (\<lambda>i fileId. if i = 0 then Some (Err (Some ''gone'') (StatusNumber 404))
                                else None),
      vectorStores_del = (\<lambda>vsId. None)\<rparr>"

definition provider_second_upload_fails :: upload_env where
  "provider_second_upload_fails =
     (provider ''completed'')
       \<lparr>files_create := (\<lambda>i file. if i = 1 then Inl (Err (Some ''rate limit'') (StatusNumber 429))
                                   else Inr (''id_'' @ file_name file))\<rparr>"

section \<open>From the response to the session\<close>

text \<open>
  Lines 255 to 266 of \<open>fetchQuizFromVectorStore\<close>, for a response of the generation
  route: \<open>response.ok\<close> is a status from 200 to 299; a body that is not a quiz has no
  \<open>quiz\<close> member; a response that is not \<open>ok\<close> throws its message, or
  \<open>API Error:\<close> with the status where the message is empty.
\<close>

definition outcome_of_response :: "response \<Rightarrow> fetch_outcome" where
  "outcome_of_response r =
     (if 200 \<le> status r \<and> status r \<le> 299 then
        Data (case body r of QuizBody quiz \<Rightarrow> Payload (Some quiz) | _ \<Rightarrow> Payload None)
      else
        Threw (Some (case body r of
                       Message m \<Rightarrow>
                         if m \<noteq> [] then m else ''API Error: '' @ string_of_nat (status r)
                     | _ \<Rightarrow> ''API Error: '' @ string_of_nat (status r))))"

section \<open>Words for the statements about the generation route\<close>

text \<open>
  The shape \<open>QuizSchema\<close> checks, on the validated value: a question text and 2 to 4
  options with a text each; 1 to 10 questions. \<open>one_correct\<close>: exactly one option of the
  question has its \<open>correct\<close> flag set.
\<close>

definition well_shaped :: "QuizQuestion \<Rightarrow> bool" where
  "well_shaped q =
     (question q \<noteq> [] \<and> 2 \<le> length (options q) \<and> length (options q) \<le> 4
      \<and> list_all (\<lambda>opt. option_text opt \<noteq> []) (options q))"

definition quiz_well_shaped :: "QuizQuestion list \<Rightarrow> bool" where
  "quiz_well_shaped quiz = (1 \<le> length quiz \<and> length quiz \<le> 10 \<and> list_all well_shaped quiz)"

text \<open>
  \<open>validated r\<close>: the response is the successful one, status 200 with a quiz that
  \<open>QuizSchema\<close> returned.
\<close>

definition validated :: "response \<Rightarrow> bool" where
  "validated r =
     (case body r of
        QuizBody quiz \<Rightarrow> status r = 200 \<and> (\<exists>j. QuizSchema j = Some quiz)
      | _ \<Rightarrow> False)"

definition one_correct :: "QuizQuestion \<Rightarrow> bool" where
  "one_correct q = (length (filter correct (options q)) = 1)"






definition answerable :: "nat \<Rightarrow> bool" where
  "answerable n = (200 \<le> n \<and> n \<le> 599 \<and> n \<noteq> 204 \<and> n \<noteq> 205 \<and> n \<noteq> 304)"

text \<open>Sample replies, a sample provider and a sample request.\<close>

definition option_json :: "string \<Rightarrow> bool \<Rightarrow> json" where
  "option_json t c = JObj [(''option'', JStr t), (''correct'', JBool c)]"

definition quiz_json :: "json list \<Rightarrow> json" where
  "quiz_json opts = JObj [(''quiz'', JArr [JObj [(''question'', JStr ''Q1''), (''options'', JArr opts)]])]"

definition good_reply :: json where
  "good_reply = quiz_json [option_json ''yes'' True, option_json ''no'' False]"

definition two_correct_reply :: json where
  "two_correct_reply = quiz_json [option_json ''yes'' True, option_json ''also'' True]"

definition none_correct_reply :: json where
  "none_correct_reply = quiz_json [option_json ''no'' False, option_json ''nor'' False]"

definition one_option_reply :: json where
  "one_option_reply = quiz_json [option_json ''yes'' True]"

definition two_correct_question :: QuizQuestion where
  "two_correct_question =
     \<lparr>question = ''Q1'',
      options = [\<lparr>option_text = ''yes'', correct = True\<rparr>,
                 \<lparr>option_text = ''also'', correct = True\<rparr>]\<rparr>"

definition none_correct_question :: QuizQuestion where
  "none_correct_question =
     \<lparr>question = ''Q1'',
      options = [\<lparr>option_text = ''no'', correct = False\<rparr>,
                 \<lparr>option_text = ''nor'', correct = False\<rparr>]\<rparr>"

definition generator :: "json \<Rightarrow> gen_env" where
  "generator reply =
     \<lparr>null_body_message = ''Cannot destructure property of null'',
      retrieve = None, files_list = Inr 2, assistants_create = Inr ''asst_1'',
      threads_create = Inr ''thread_1'', messages_create = None,
      runs_createAndPoll = Inr ''completed'', messages_list = Inr (Some ''reply''),
      json_parse = (\<lambda>responseText. Some reply), completions_parse = Inr None,
      assistants_del = None, threads_del = None\<rparr>"

definition start_request :: "js_error + json" where
  "start_request = Inr (JObj [(''vectorStoreId'', JStr ''vs_1'')])"

definition generate_calls :: "event list" where
  "generate_calls =
     [Call (VectorStoresRetrieve (JStr ''vs_1'')), Call (VectorStoresFilesList (JStr ''vs_1'')),
      Call (AssistantsCreate (JStr ''vs_1'')), Call ThreadsCreate,
      Call (MessagesCreate ''thread_1'' []), Call (RunsCreateAndPoll ''thread_1'' ''asst_1''),
      Call (MessagesList ''thread_1'')]"

text \<open>
  A session on the results screen: one question, answered correctly, the quiz finished.
\<close>

definition sample_option :: "bool \<Rightarrow> QuizOption" where
  "sample_option c = \<lparr>option_text = (if c then ''yes'' else ''no''), correct = c\<rparr>"

definition sample_question :: QuizQuestion where
  "sample_question =
     \<lparr>question = ''Q1'', options = [sample_option True, sample_option False]\<rparr>"

definition staged :: "string \<Rightarrow> file_status \<Rightarrow> UploadedFile" where
  "staged n st =
     \<lparr>uf_file = \<lparr>file_name = n, file_size = 1024\<rparr>, uf_id = ''x1'', uf_name = n,
      uf_status = st, uf_error = None\<rparr>"

definition finished_session :: session where
  "finished_session =
     \<lparr>selectedFiles = [staged ''a.pdf'' FileUploaded], vectorStoreId = Some ''vs_1'',
      questions = [sample_question],
      currentQuestionIndex = 0, selectedOption = Some (sample_option True),
      isAnswered = True, score = 1, isLoading = False, isUploading = False, error = None,
      quizStarted = True, quizFinished = True\<rparr>"

text \<open>
  A session in which a quiz of two questions has just started, and its operations: the
  first question answered correctly (and a second click on it), the second answered
  wrongly, then one more question fetched and answered correctly.
\<close>

definition started_session :: session where
  "started_session =
     \<lparr>selectedFiles = [staged ''a.pdf'' FileUploaded], vectorStoreId = Some ''vs_1'',
      questions = [sample_question, sample_question],
      currentQuestionIndex = 0, selectedOption = None,
      isAnswered = False, score = 0, isLoading = False, isUploading = False, error = None,
      quizStarted = True, quizFinished = False\<rparr>"

definition sample_run :: "quiz_op list" where
  "sample_run =
     [SelectOption (sample_option True), SelectOption (sample_option False), NextQuestion,
      SelectOption (sample_option False), NextQuestion,
      MoreQuestions (Data (Payload (Some [sample_question]))),
      SelectOption (sample_option True)]"

text \<open>A session with one staged file, not yet uploaded.\<close>

definition staging_session :: session where
  "staging_session = initial_session\<lparr>selectedFiles := [staged ''a.pdf'' FilePending]\<rparr>"

section \<open>Properties of the quiz session\<close>

lemma handleOptionSelect_answered: "isAnswered s \<Longrightarrow> handleOptionSelect opt s = s"
  by (simp add: handleOptionSelect_def)

lemma handleOptionSelect_isAnswered: "isAnswered (handleOptionSelect opt s)"
  by (simp add: handleOptionSelect_def Let_def)

lemmas more_questions_eval =
  handleFetchAndContinueQuiz_def no_handle_def fetchQuizFromVectorStore_def fetch_end_def
  fetch_begin_def handleProcessQuizData_def process_rejected_def Let_def

lemma score_run_op:
  "score (run_op s op) = score s + (if scoring_selection s op then 1 else 0)"
proof (cases op)
  case (SelectOption opt)
  then show ?thesis by (simp add: handleOptionSelect_def Let_def)
next
  case NextQuestion
  then show ?thesis by (simp add: handleNextQuestion_def)
next
  case (MoreQuestions outcome)
  then show ?thesis
    by (simp add: more_questions_eval
        split: option.splits fetch_outcome.splits quiz_payload.splits)
qed

lemma score_run_ops_lower: "score s \<le> score (run_ops s ops)"
proof (induction ops arbitrary: s)
  case Nil
  show ?case by simp
next
  case (Cons op ops)
  have "score s \<le> score (run_op s op)" by (simp add: score_run_op)
  also have "\<dots> \<le> score (run_ops (run_op s op) ops)" by (rule Cons.IH)
  finally show ?case by simp
qed

lemma scoring_answer:
  "length (filter snd (answer_of s op)) = (if scoring_selection s op then 1 else 0)"
  by (cases op) simp_all

lemma score_answers: "score (run_ops s ops) = score s + length (filter snd (answers s ops))"
proof (induction ops arbitrary: s)
  case Nil
  show ?case by simp
next
  case (Cons op ops)
  show ?case by (simp add: Cons.IH score_run_op scoring_answer)
qed

lemma run_op_questions: "length (questions s) \<le> length (questions (run_op s op))"
proof (cases op)
  case (SelectOption opt)
  then show ?thesis by (simp add: handleOptionSelect_def Let_def)
next
  case NextQuestion
  then show ?thesis by (simp add: handleNextQuestion_def)
next
  case (MoreQuestions outcome)
  then show ?thesis
    by (simp add: more_questions_eval
        split: option.splits fetch_outcome.splits quiz_payload.splits)
qed

lemma run_ops_questions: "length (questions s) \<le> length (questions (run_ops s ops))"
proof (induction ops arbitrary: s)
  case Nil
  show ?case by simp
next
  case (Cons op ops)
  have "length (questions s) \<le> length (questions (run_op s op))" by (rule run_op_questions)
  also have "\<dots> \<le> length (questions (run_ops (run_op s op) ops))" by (rule Cons.IH)
  finally show ?case by simp
qed

lemma run_op_progress:
  assumes "currentQuestionIndex s < length (questions s)"
  shows "place s \<le> place (run_op s op)"
    and "currentQuestionIndex (run_op s op) < length (questions (run_op s op))"
proof -
  have "place s \<le> place (run_op s op)
        \<and> currentQuestionIndex (run_op s op) < length (questions (run_op s op))"
  proof (cases op)
    case (SelectOption opt)
    with assms show ?thesis by (simp add: handleOptionSelect_def place_def Let_def)
  next
    case NextQuestion
    with assms show ?thesis by (auto simp: handleNextQuestion_def place_def)
  next
    case (MoreQuestions outcome)
    with assms show ?thesis
      by (auto simp: more_questions_eval place_def
          split: option.splits fetch_outcome.splits quiz_payload.splits)
  qed
  then show "place s \<le> place (run_op s op)"
    and "currentQuestionIndex (run_op s op) < length (questions (run_op s op))"
    by simp_all
qed

lemma answer_of_place:
  assumes "(i, c) \<in> set (answer_of s op)"
  shows "place s = 2 * i" and "place (run_op s op) = 2 * i + 1" and "i = currentQuestionIndex s"
  using assms
  by (cases op; simp add: place_def handleOptionSelect_def Let_def split: if_splits)+

lemma answers_place:
  assumes "currentQuestionIndex s < length (questions s)" and "(i, c) \<in> set (answers s ops)"
  shows "place s \<le> 2 * i \<and> i < length (questions (run_ops s ops))"
  using assms
proof (induction ops arbitrary: s)
  case Nil
  then show ?case by simp
next
  case (Cons op ops)
  from Cons.prems(2) consider
    (now) "(i, c) \<in> set (answer_of s op)" | (later) "(i, c) \<in> set (answers (run_op s op) ops)"
    by auto
  then show ?case
  proof cases
    case now
    from answer_of_place [OF now] Cons.prems(1)
    have "place s = 2 * i" and "i < length (questions s)" by simp_all
    moreover have "length (questions s) \<le> length (questions (run_ops s (op # ops)))"
      by (rule run_ops_questions)
    ultimately show ?thesis by simp
  next
    case later
    from Cons.IH [OF run_op_progress(2) [OF Cons.prems(1)] later]
      run_op_progress(1) [OF Cons.prems(1), of op]
    show ?thesis by simp
  qed
qed

lemma answers_distinct:
  assumes "currentQuestionIndex s < length (questions s)"
  shows "distinct (map fst (answers s ops))"
  using assms
proof (induction ops arbitrary: s)
  case Nil
  show ?case by simp
next
  case (Cons op ops)
  note next_ok = run_op_progress(2) [OF Cons.prems, of op]
  have rest: "distinct (map fst (answers (run_op s op) ops))"
    by (rule Cons.IH [OF next_ok])
  have one: "distinct (map fst (answer_of s op))"
    by (cases op) simp_all
  have apart: "fst a \<noteq> fst b"
    if a: "a \<in> set (answer_of s op)" and b: "b \<in> set (answers (run_op s op) ops)" for a b
  proof -
    obtain i c where a': "a = (i, c)" by (cases a)
    obtain k d where b': "b = (k, d)" by (cases b)
    from answer_of_place(2) [of i c s op] a a' have "place (run_op s op) = 2 * i + 1" by simp
    moreover from answers_place [OF next_ok, of k d ops] b b'
    have "place (run_op s op) \<le> 2 * k" by simp
    ultimately show ?thesis using a' b' by auto
  qed
  from rest one apart show ?case by (auto simp: distinct_map inj_on_def)
qed


subsection \<open>Selecting an option\<close>

text \<open>
  C2. \<open>handleOptionSelect\<close> changes nothing when the current question is already
  answered, so a second selection leaves the score and the recorded selection as the
  first one set them. When the question is not yet answered, it records the option,
  marks the question answered and adds 1 to the score exactly when the option's
  \<open>correct\<close> flag is true; no other field changes.
\<close>

theorem select_option_first_counts:
  "(isAnswered s \<longrightarrow> handleOptionSelect opt s = s) \<and>
   (\<not> isAnswered s \<longrightarrow>
      selectedOption (handleOptionSelect opt s) = Some opt \<and>
      isAnswered (handleOptionSelect opt s) \<and>
      (correct opt \<longrightarrow> score (handleOptionSelect opt s) = score s + 1) \<and>
      (\<not> correct opt \<longrightarrow> score (handleOptionSelect opt s) = score s) \<and>
      handleOptionSelect opt s =
        s\<lparr>selectedOption := Some opt, isAnswered := True,
          score := score s + (if correct opt then 1 else 0)\<rparr>) \<and>
   handleOptionSelect opt2 (handleOptionSelect opt s) = handleOptionSelect opt s"
proof -
  have again: "handleOptionSelect opt2 (handleOptionSelect opt s) = handleOptionSelect opt s"
    by (rule handleOptionSelect_answered) (rule handleOptionSelect_isAnswered)
  show ?thesis
    using again by (simp add: handleOptionSelect_def Let_def)
qed

theorem select_option_first_counts_witness:
  "\<not> isAnswered initial_session \<and>
   selectedOption (handleOptionSelect (sample_option True) initial_session)
     = Some (sample_option True) \<and>
   score (handleOptionSelect (sample_option True) initial_session) = 1 \<and>
   score (handleOptionSelect (sample_option False) initial_session) = 0 \<and>
   isAnswered finished_session \<and>
   handleOptionSelect (sample_option False) finished_session = finished_session"
proof -
  have fresh: "\<not> isAnswered initial_session" by (simp add: initial_session_def)
  have answered: "isAnswered finished_session" by (simp add: finished_session_def)
  have yes: "correct (sample_option True)" by (simp add: sample_option_def)
  have no: "\<not> correct (sample_option False)" by (simp add: sample_option_def)
  from select_option_first_counts [of initial_session "sample_option True" "sample_option False"]
    select_option_first_counts [of initial_session "sample_option False" "sample_option True"]
    select_option_first_counts [of finished_session "sample_option False" "sample_option True"]
    fresh answered yes no
  show ?thesis by (simp add: initial_session_def)
qed

subsection \<open>The score along a run\<close>

text \<open>
  C3. Along every sequence of operations of a quiz run (select, advance, more
  questions) that starts on a question of the list, one operation adds exactly 1 to the
  score when it selects a correct option while the current question has no answer, and
  leaves the score unchanged otherwise; so the score never decreases. The selections
  that count are made on pairwise different questions of the list, none of them before
  the question the run starts on: each question is answered, and scored, at most once.
  The score gained is the number of correct ones among these answers, hence at most the
  number of questions answered, which is at most the number of questions from the
  start of the run on. A run starts at score 0: \<open>resetQuizState\<close> and a request that
  is not a continuation set the score to 0.
\<close>

theorem score_monotone_bounded:
  assumes "currentQuestionIndex s < length (questions s)"
  shows
    "score (run_op s op) = score s + (if scoring_selection s op then 1 else 0) \<and>
     score s \<le> score (run_ops s ops) \<and>
     score (run_ops s ops) = score s + length (filter snd (answers s ops)) \<and>
     score (run_ops s ops) \<le> score s + length (answers s ops) \<and>
     distinct (map fst (answers s ops)) \<and>
     (\<forall>i \<in> set (map fst (answers s ops)).
         currentQuestionIndex s \<le> i \<and> i < length (questions (run_ops s ops))) \<and>
     (isAnswered s \<longrightarrow> currentQuestionIndex s \<notin> set (map fst (answers s ops))) \<and>
     length (answers s ops) \<le> length (questions (run_ops s ops)) - currentQuestionIndex s \<and>
     score (resetQuizState s) = 0 \<and>
     score (fetchQuizFromVectorStore False outcome s) = 0"
proof -
  have fresh: "score (fetchQuizFromVectorStore False outcome s) = 0"
    by (simp add: fetchQuizFromVectorStore_def fetch_begin_def fetch_end_def
        handleProcessQuizData_def process_rejected_def Let_def
        split: fetch_outcome.splits quiz_payload.splits option.splits)
  have exact: "score (run_ops s ops) = score s + length (filter snd (answers s ops))"
    by (rule score_answers)
  have "length (filter snd (answers s ops)) \<le> length (answers s ops)" by simp
  with exact have upper: "score (run_ops s ops) \<le> score s + length (answers s ops)" by simp
  have apart: "distinct (map fst (answers s ops))"
    by (rule answers_distinct [OF assms])
  have range: "place s \<le> 2 * i \<and> i < length (questions (run_ops s ops))"
    if "i \<in> set (map fst (answers s ops))" for i
    using that answers_place [OF assms] by auto
  have from_start: "currentQuestionIndex s \<le> i \<and> i < length (questions (run_ops s ops))"
    if "i \<in> set (map fst (answers s ops))" for i
    using range [OF that] by (simp add: place_def split: if_splits)
  then have within: "\<forall>i \<in> set (map fst (answers s ops)).
         currentQuestionIndex s \<le> i \<and> i < length (questions (run_ops s ops))"
    by blast
  have later: "isAnswered s \<longrightarrow> currentQuestionIndex s \<notin> set (map fst (answers s ops))"
  proof (intro impI notI)
    assume "isAnswered s" and "currentQuestionIndex s \<in> set (map fst (answers s ops))"
    with range [of "currentQuestionIndex s"] show False by (simp add: place_def)
  qed
  have "set (map fst (answers s ops))
          \<subseteq> {currentQuestionIndex s ..< length (questions (run_ops s ops))}"
    using within by auto
  then have "card (set (map fst (answers s ops)))
          \<le> card {currentQuestionIndex s ..< length (questions (run_ops s ops))}"
    by (intro card_mono) simp_all
  moreover from distinct_card [OF apart]
  have "card (set (map fst (answers s ops))) = length (answers s ops)" by simp
  ultimately have few: "length (answers s ops)
          \<le> length (questions (run_ops s ops)) - currentQuestionIndex s"
    by simp
  from exact upper apart within later few fresh show ?thesis
    by (simp add: score_run_op score_run_ops_lower resetQuizState_def)
qed

theorem score_monotone_bounded_witness:
  "currentQuestionIndex started_session < length (questions started_session) \<and>
   answers started_session sample_run = [(0, True), (1, False), (2, True)] \<and>
   score (run_ops started_session sample_run) = 2 \<and>
   length (questions (run_ops started_session sample_run)) = 3"
proof -
  have start: "currentQuestionIndex started_session < length (questions started_session)"
    by (simp add: started_session_def)
  have zero: "score started_session = 0" by (simp add: started_session_def)
  have log: "answers started_session sample_run = [(0, True), (1, False), (2, True)]"
    by (simp add: started_session_def sample_run_def sample_option_def handleOptionSelect_def
        handleNextQuestion_def more_questions_eval)
  have three: "length (questions (run_ops started_session sample_run)) = 3"
    by (simp add: started_session_def sample_run_def sample_option_def handleOptionSelect_def
        handleNextQuestion_def more_questions_eval)
  from score_monotone_bounded [OF start, of _ sample_run] log zero
  have "score (run_ops started_session sample_run) = 2" by simp
  with start log three show ?thesis by simp
qed


subsection \<open>More questions and restart\<close>

text \<open>
  The handlers that store a handle never store the empty string: \<open>handleStartQuiz\<close>
  stores what the upload returned only when that is truthy, and \<open>handleUploadNewFiles\<close>
  stores \<open>null\<close>.
\<close>

lemma stored_handle_not_empty:
  "vectorStoreId s \<noteq> Some [] \<Longrightarrow> vectorStoreId (handleStartQuiz uploaded generated s) \<noteq> Some []"
  "vectorStoreId (handleUploadNewFiles s) = None"
  by (auto simp: handleStartQuiz_def uploadFilesToVectorStore_def upload_begin_def upload_end_def
      no_handle_def handleUploadNewFiles_def resetQuizState_def fetchQuizFromVectorStore_def
      fetch_begin_def fetch_end_def handleProcessQuizData_def process_rejected_def Let_def
      split: option.splits upload_outcome.splits fetch_outcome.splits quiz_payload.splits
        if_splits)

text \<open>
  C4. With a store handle (not the empty string, for which both handlers return at
  once) and a non-empty new question set, "more questions"
  (\<open>handleFetchAndContinueQuiz\<close>) sends the texts of the questions so far and appends
  the new questions: the length is the old length plus the number of new questions, and
  the current index is that of the first new question. The score is kept. "Restart"
  (\<open>handleRestartQuizFromFiles\<close>) sends no question texts and replaces the list: the
  length is that of the new set, and index, score, selection and answered flag are
  reset.
\<close>

theorem more_appends_restart_replaces:
  assumes "vectorStoreId s = Some v" and "v \<noteq> []" and "new \<noteq> []"
  shows
    "(let s' = handleFetchAndContinueQuiz (Data (Payload (Some new))) s in
        questions s' = questions s @ new \<and>
        length (questions s') = length (questions s) + length new \<and>
        currentQuestionIndex s' = length (questions s) \<and>
        questions s' ! currentQuestionIndex s' = hd new \<and>
        score s' = score s \<and> selectedOption s' = None \<and> \<not> isAnswered s' \<and>
        quizStarted s' \<and> \<not> quizFinished s' \<and> error s' = None) \<and>
     (questions s \<noteq> [] \<longrightarrow> requestBody v True s = (v, map question (questions s))) \<and>
     (let s' = handleRestartQuizFromFiles (Data (Payload (Some new))) s in
        questions s' = new \<and>
        length (questions s') = length new \<and>
        currentQuestionIndex s' = 0 \<and>
        score s' = 0 \<and> selectedOption s' = None \<and> \<not> isAnswered s' \<and>
        quizStarted s' \<and> \<not> quizFinished s' \<and> error s' = None) \<and>
     requestBody v False s = (v, [])"
  using assms
  by (simp add: handleFetchAndContinueQuiz_def handleRestartQuizFromFiles_def no_handle_def
      fetchQuizFromVectorStore_def fetch_begin_def fetch_end_def handleProcessQuizData_def
      requestBody_def Let_def nth_append hd_conv_nth)

theorem more_appends_restart_replaces_witness:
  "vectorStoreId finished_session = Some ''vs_1'' \<and> ''vs_1'' \<noteq> [] \<and>
   [sample_question, sample_question] \<noteq> [] \<and>
   length (questions (handleFetchAndContinueQuiz
       (Data (Payload (Some [sample_question, sample_question]))) finished_session)) = 3 \<and>
   currentQuestionIndex (handleFetchAndContinueQuiz
       (Data (Payload (Some [sample_question, sample_question]))) finished_session) = 1 \<and>
   score (handleFetchAndContinueQuiz
       (Data (Payload (Some [sample_question, sample_question]))) finished_session) = 1 \<and>
   length (questions (handleRestartQuizFromFiles
       (Data (Payload (Some [sample_question, sample_question]))) finished_session)) = 2 \<and>
   score (handleRestartQuizFromFiles
       (Data (Payload (Some [sample_question, sample_question]))) finished_session) = 0"
proof -
  have h: "vectorStoreId finished_session = Some ''vs_1''"
    by (simp add: finished_session_def)
  have v: "''vs_1'' \<noteq> []" by simp
  have n: "[sample_question, sample_question] \<noteq> []" by simp
  have q: "length (questions finished_session) = 1" "score finished_session = 1"
    by (simp_all add: finished_session_def)
  from more_appends_restart_replaces [OF h v n] h q
  show ?thesis by (simp add: Let_def)
qed

subsection \<open>A request that fails\<close>

text \<open>
  C9, as claimed, fails: "restart from files" clears the questions, the index, the
  selection, the answered flag, the score and the finished flag before the request is
  sent (lines 228 to 236), and a request that then fails also clears \<open>quizStarted\<close>
  (line 274). From the results screen of a one-question quiz with score 1, a failed
  restart leaves no questions and score 0.
\<close>

theorem failed_restart_counterexample:
  "handleRestartQuizFromFiles (Threw (Some ''Request failed'')) finished_session
     \<noteq> finished_session\<lparr>error := Some ''Request failed''\<rparr> \<and>
   questions finished_session = [sample_question] \<and>
   questions (handleRestartQuizFromFiles (Threw (Some ''Request failed'')) finished_session) = [] \<and>
   score finished_session = 1 \<and>
   score (handleRestartQuizFromFiles (Threw (Some ''Request failed'')) finished_session) = 0 \<and>
   quizFinished finished_session \<and>
   \<not> quizFinished (handleRestartQuizFromFiles (Threw (Some ''Request failed'')) finished_session)"
  by (simp add: handleRestartQuizFromFiles_def no_handle_def fetchQuizFromVectorStore_def
      fetch_begin_def fetch_end_def finished_session_def message_or_def Let_def)

text \<open>
  C9, amended. A gateway request that fails (it is rejected, answered with a status
  that is not \<open>ok\<close>, or its body is not JSON) sets the error message and clears the
  busy flag of its kind. After a failed upload every staged file is marked failed with
  the message, and nothing else changes: questions, index, selection, answered flag,
  score, started and finished flags and the store handle are as before. After a failed
  continuation ("more questions") nothing else changes, also when the response carries
  no questions. After a failed generation request that is not a continuation ("restart
  from files", or the first request) the session is left as the reset before the
  request made it, with the quiz not started: no questions, index 0, no selection, not
  answered, score 0, not finished; the store handle and the staged files are kept.
\<close>

theorem failed_request_state:
  "(length (selectedFiles s) > 0
      \<and> (no_handle (vectorStoreId s)
          \<or> list_ex (\<lambda>f. uf_status f \<noteq> FileUploaded) (selectedFiles s))
    \<longrightarrow> handleStartQuiz (UploadThrew m) generated s =
          s\<lparr>error := Some
                (message_or m ''An unexpected error occurred while uploading the PDF files.''),
            selectedFiles :=
              map (\<lambda>f. f\<lparr>uf_status := FileError, uf_error := m\<rparr>) (selectedFiles s),
            isUploading := False\<rparr>) \<and>
   fetchQuizFromVectorStore True (Threw m) s =
     s\<lparr>error := Some (message_or m ''An unexpected error occurred while generating the quiz.''),
       isLoading := False\<rparr> \<and>
   fetchQuizFromVectorStore True (Data (Payload (Some []))) s =
     s\<lparr>error := Some ''The API returned no new questions from the PDFs, or the format was unexpected.'',
       isLoading := False\<rparr> \<and>
   fetchQuizFromVectorStore False (Threw m) s =
     s\<lparr>questions := [], currentQuestionIndex := 0, selectedOption := None,
       isAnswered := False, score := 0, quizFinished := False, quizStarted := False,
       error := Some (message_or m ''An unexpected error occurred while generating the quiz.''),
       isLoading := False\<rparr> \<and>
   vectorStoreId (fetchQuizFromVectorStore c (Threw m) s) = vectorStoreId s \<and>
   selectedFiles (fetchQuizFromVectorStore c (Threw m) s) = selectedFiles s"
proof -
  have upload: "length (selectedFiles s) > 0
      \<and> (no_handle (vectorStoreId s)
          \<or> list_ex (\<lambda>f. uf_status f \<noteq> FileUploaded) (selectedFiles s))
    \<longrightarrow> handleStartQuiz (UploadThrew m) generated s =
          s\<lparr>error := Some
                (message_or m ''An unexpected error occurred while uploading the PDF files.''),
            selectedFiles :=
              map (\<lambda>f. f\<lparr>uf_status := FileError, uf_error := m\<rparr>) (selectedFiles s),
            isUploading := False\<rparr>"
    by (auto simp: handleStartQuiz_def uploadFilesToVectorStore_def upload_begin_def
        upload_end_def no_handle_def comp_def)
  have generation: "fetchQuizFromVectorStore True (Threw m) s =
     s\<lparr>error := Some (message_or m ''An unexpected error occurred while generating the quiz.''),
       isLoading := False\<rparr> \<and>
   fetchQuizFromVectorStore True (Data (Payload (Some []))) s =
     s\<lparr>error := Some ''The API returned no new questions from the PDFs, or the format was unexpected.'',
       isLoading := False\<rparr> \<and>
   fetchQuizFromVectorStore False (Threw m) s =
     s\<lparr>questions := [], currentQuestionIndex := 0, selectedOption := None,
       isAnswered := False, score := 0, quizFinished := False, quizStarted := False,
       error := Some (message_or m ''An unexpected error occurred while generating the quiz.''),
       isLoading := False\<rparr> \<and>
   vectorStoreId (fetchQuizFromVectorStore c (Threw m) s) = vectorStoreId s \<and>
   selectedFiles (fetchQuizFromVectorStore c (Threw m) s) = selectedFiles s"
    by (simp add: fetchQuizFromVectorStore_def fetch_begin_def fetch_end_def
        handleProcessQuizData_def process_rejected_def Let_def)
  from upload generation show ?thesis by blast
qed

theorem failed_request_state_witness:
  "length (selectedFiles staging_session) > 0 \<and> no_handle (vectorStoreId staging_session) \<and>
   handleStartQuiz (UploadThrew (Some ''Upload failed'')) (Threw None) staging_session =
     staging_session
       \<lparr>error := Some ''Upload failed'',
        selectedFiles := [(staged ''a.pdf'' FileError)\<lparr>uf_error := Some ''Upload failed''\<rparr>]\<rparr> \<and>
   handleFetchAndContinueQuiz (Threw (Some ''Request failed'')) finished_session =
     finished_session\<lparr>error := Some ''Request failed''\<rparr> \<and>
   handleRestartQuizFromFiles (Threw (Some ''Request failed'')) finished_session =
     resetQuizState finished_session\<lparr>error := Some ''Request failed''\<rparr>"
proof -
  have files: "length (selectedFiles staging_session) > 0"
    by (simp add: staging_session_def)
  have none: "no_handle (vectorStoreId staging_session)"
    by (simp add: staging_session_def initial_session_def no_handle_def)
  have h: "\<not> no_handle (vectorStoreId finished_session)"
    by (simp add: finished_session_def no_handle_def)
  have l: "\<not> isLoading finished_session" by (simp add: finished_session_def)
  have u: "\<not> isUploading staging_session"
    "selectedFiles staging_session = [staged ''a.pdf'' FilePending]"
    by (simp_all add: staging_session_def initial_session_def)
  from failed_request_state [of staging_session "Some ''Upload failed''" "Threw None"]
    files none u
  have a: "handleStartQuiz (UploadThrew (Some ''Upload failed'')) (Threw None) staging_session =
     staging_session
       \<lparr>error := Some ''Upload failed'',
        selectedFiles := [(staged ''a.pdf'' FileError)\<lparr>uf_error := Some ''Upload failed''\<rparr>]\<rparr>"
    by (simp add: message_or_def staged_def)
  from failed_request_state [of finished_session "Some ''Request failed''"] h l
  have b: "handleFetchAndContinueQuiz (Threw (Some ''Request failed'')) finished_session =
     finished_session\<lparr>error := Some ''Request failed''\<rparr> \<and>
   handleRestartQuizFromFiles (Threw (Some ''Request failed'')) finished_session =
     resetQuizState finished_session\<lparr>error := Some ''Request failed''\<rparr>"
    by (simp add: handleFetchAndContinueQuiz_def handleRestartQuizFromFiles_def
        message_or_def resetQuizState_def)
  from files none a b show ?thesis by simp
qed

subsection \<open>The answered flag and the selection\<close>

text \<open>
  C10. In every state the handlers produce from the initial state (selecting an
  option, advancing, processing quiz data, resetting, the two halves of a generation
  request and of an upload, staging files and storing a handle), \<open>isAnswered\<close> is true
  exactly when \<open>selectedOption\<close> holds an option.
\<close>

theorem answered_iff_selected:
  "reachable s \<Longrightarrow> (isAnswered s \<longleftrightarrow> selectedOption s \<noteq> None)"
proof (induction rule: reachable.induct)
  case r_init
  show ?case by (simp add: initial_session_def)
next
  case (r_select s opt)
  then show ?case by (simp add: handleOptionSelect_def Let_def)
next
  case (r_next s)
  then show ?case by (simp add: handleNextQuestion_def)
next
  case (r_process s d isAppending)
  then show ?case
    by (simp add: handleProcessQuizData_def process_rejected_def Let_def
        split: quiz_payload.splits option.splits)
next
  case (r_reset s)
  show ?case by (simp add: resetQuizState_def)
next
  case (r_fetch_begin s isContinuation)
  then show ?case by (simp add: fetch_begin_def Let_def)
next
  case (r_fetch_end s isContinuation outcome)
  then show ?case
    by (simp add: fetch_end_def handleProcessQuizData_def process_rejected_def Let_def
        split: fetch_outcome.splits quiz_payload.splits option.splits)
next
  case (r_store s v)
  then show ?case by simp
next
  case (r_files s fs e)
  then show ?case by simp
next
  case (r_upload_begin s)
  then show ?case by (simp add: upload_begin_def)
next
  case (r_upload_end s uploaded)
  then show ?case by (simp add: upload_end_def split: upload_outcome.splits)
qed

theorem answered_iff_selected_witness:
  "reachable (handleOptionSelect (sample_option True)
      (handleProcessQuizData (Payload (Some [sample_question])) False initial_session)) \<and>
   isAnswered (handleOptionSelect (sample_option True)
      (handleProcessQuizData (Payload (Some [sample_question])) False initial_session)) \<and>
   selectedOption (handleOptionSelect (sample_option True)
      (handleProcessQuizData (Payload (Some [sample_question])) False initial_session))
     = Some (sample_option True)"
proof -
  let ?s = "handleOptionSelect (sample_option True)
      (handleProcessQuizData (Payload (Some [sample_question])) False initial_session)"
  have r: "reachable ?s"
    by (intro r_select r_process r_init)
  have "selectedOption ?s = Some (sample_option True)"
    by (simp add: handleOptionSelect_def handleProcessQuizData_def initial_session_def Let_def)
  with answered_iff_selected [OF r] r show ?thesis by simp
qed


section \<open>Properties of the upload route\<close>

lemma check_files_2_refuses:
  "check_files_2 files t = Inl r \<Longrightarrow> status r = 400 \<and> (\<exists>m. body r = Message m)"
  by (induction files arbitrary: t) (auto simp: not_a_pdf_def split: if_splits)

lemma check_files_2_accepts:
  "check_files_2 files t = Inr n \<Longrightarrow>
     (\<forall>f \<in> set files. has_pdf_extension f \<and> file_size f \<le> MAX_FILE_SIZE)
     \<and> n = t + total_size files"
  by (induction files t rule: check_files_2.induct) (auto simp: total_size_def split: if_splits)

lemma check_files_2_total:
  "\<forall>f \<in> set files. has_pdf_extension f \<and> file_size f \<le> MAX_FILE_SIZE \<Longrightarrow>
     check_files_2 files t = Inr (t + total_size files)"
  by (induction files arbitrary: t) (auto simp: total_size_def)

lemma check_files_1_refuses:
  "check_files_1 files = Some r \<Longrightarrow> status r = 400 \<and> (\<exists>m. body r = Message m)"
  by (induction files) (auto simp: not_a_pdf_def split: if_splits)

lemma check_files_1_accepts:
  "check_files_1 files = None \<Longrightarrow> \<forall>f \<in> set files. has_pdf_extension f"
  by (induction files) (auto split: if_splits)

lemma has_pdf_extension_samples:
  "has_pdf_extension (pdf ''a.pdf'' n)" "has_pdf_extension (pdf ''B.PDF'' n)"
  "\<not> has_pdf_extension (pdf ''notes.txt'' n)"
  by (simp_all add: has_pdf_extension_def pdf_def endsWith_def toLowerCase_def lower_char_def)

subsection \<open>Validation comes before any call\<close>

text \<open>
  What the two handlers refuse. A batch that breaks a constraint (no file; more than 10
  files; a name that does not end in \<open>.pdf\<close>, in any letter case; a file above
  \<open>MAX_FILE_SIZE\<close>; a total above \<open>MAX_TOTAL_SIZE\<close>) is refused by the second handler
  with status 400 and a message, before any call of the provider. The first handler
  does the same for the two constraints it checks, the empty batch and the extension.
\<close>

theorem upload_refuses_before_any_call:
  "(files = [] \<or> length files > 10 \<or> (\<exists>f \<in> set files. \<not> has_pdf_extension f)
      \<or> (\<exists>f \<in> set files. file_size f > MAX_FILE_SIZE) \<or> total_size files > MAX_TOTAL_SIZE
    \<longrightarrow> refused_locally (POST_upload_2 env (Inr files))) \<and>
   (files = [] \<or> (\<exists>f \<in> set files. \<not> has_pdf_extension f)
    \<longrightarrow> refused_locally (POST_upload_1 env (Inr files)))"
proof (intro conjI impI)
  assume bad: "files = [] \<or> length files > 10 \<or> (\<exists>f \<in> set files. \<not> has_pdf_extension f)
      \<or> (\<exists>f \<in> set files. file_size f > MAX_FILE_SIZE) \<or> total_size files > MAX_TOTAL_SIZE"
  show "refused_locally (POST_upload_2 env (Inr files))"
  proof (cases "check_files_2 files 0")
    case (Inl r)
    with check_files_2_refuses [OF Inl] show ?thesis
      by (auto simp: refused_locally_def POST_upload_2_def no_files_def)
  next
    case (Inr n)
    from check_files_2_accepts [OF Inr]
    have ok: "\<forall>f \<in> set files. has_pdf_extension f \<and> file_size f \<le> MAX_FILE_SIZE"
      and total: "n = total_size files" by simp_all
    from bad ok have "files = [] \<or> length files > 10 \<or> total_size files > MAX_TOTAL_SIZE"
      by (auto simp: not_less [symmetric])
    with Inr total show ?thesis
      by (auto simp: refused_locally_def POST_upload_2_def no_files_def)
  qed
next
  assume bad: "files = [] \<or> (\<exists>f \<in> set files. \<not> has_pdf_extension f)"
  show "refused_locally (POST_upload_1 env (Inr files))"
  proof (cases "check_files_1 files")
    case None
    with bad check_files_1_accepts [OF None] show ?thesis
      by (auto simp: refused_locally_def POST_upload_1_def no_files_def)
  next
    case (Some r)
    with check_files_1_refuses [OF Some] show ?thesis
      by (auto simp: refused_locally_def POST_upload_1_def no_files_def)
  qed
qed

theorem upload_refuses_before_any_call_witness:
  "POST_upload_2 (provider ''completed'') (Inr []) = ([], Some no_files) \<and>
   length (replicate 11 (pdf ''a.pdf'' 1)) > 10 \<and>
   fst (POST_upload_2 (provider ''completed'') (Inr (replicate 11 (pdf ''a.pdf'' 1)))) = [] \<and>
   map_option status (snd (POST_upload_2 (provider ''completed'')
      (Inr (replicate 11 (pdf ''a.pdf'' 1))))) = Some 400 \<and>
   \<not> has_pdf_extension (pdf ''notes.txt'' 1) \<and>
   fst (POST_upload_2 (provider ''completed'') (Inr [pdf ''a.pdf'' 3, pdf ''notes.txt'' 1])) = [] \<and>
   map_option status (snd (POST_upload_2 (provider ''completed'')
      (Inr [pdf ''a.pdf'' 3, pdf ''notes.txt'' 1]))) = Some 400 \<and>
   file_size (pdf ''a.pdf'' 21) > MAX_FILE_SIZE \<and>
   fst (POST_upload_2 (provider ''completed'') (Inr [pdf ''a.pdf'' 21])) = [] \<and>
   map_option status (snd (POST_upload_2 (provider ''completed'') (Inr [pdf ''a.pdf'' 21])))
     = Some 400 \<and>
   total_size (replicate 11 (pdf ''a.pdf'' 19)) > MAX_TOTAL_SIZE \<and>
   fst (POST_upload_2 (provider ''completed'') (Inr (replicate 11 (pdf ''a.pdf'' 19)))) = [] \<and>
   fst (POST_upload_1 (provider ''completed'') (Inr [pdf ''notes.txt'' 1])) = []"
proof -
  have none: "POST_upload_2 (provider ''completed'') (Inr []) = ([], Some no_files)"
    by (simp add: POST_upload_2_def)
  have many: "length (replicate 11 (pdf ''a.pdf'' 1)) > 10" by simp
  have nopdf: "\<not> has_pdf_extension (pdf ''notes.txt'' 1)"
    by (rule has_pdf_extension_samples)
  have nopdf_in: "\<exists>f \<in> set [pdf ''a.pdf'' 3, pdf ''notes.txt'' 1]. \<not> has_pdf_extension f"
    using nopdf by simp
  have big: "file_size (pdf ''a.pdf'' 21) > MAX_FILE_SIZE"
    by (simp add: pdf_def MAX_FILE_SIZE_def)
  have big_in: "\<exists>f \<in> set [pdf ''a.pdf'' 21]. file_size f > MAX_FILE_SIZE"
    using big by simp
  have sum: "total_size (replicate 11 (pdf ''a.pdf'' 19)) > MAX_TOTAL_SIZE"
    by (simp add: total_size_def pdf_def MAX_TOTAL_SIZE_def sum_list_replicate)
  have one_nopdf: "\<exists>f \<in> set [pdf ''notes.txt'' 1]. \<not> has_pdf_extension f"
    using nopdf by simp
  from upload_refuses_before_any_call [of "replicate 11 (pdf ''a.pdf'' 1)" "provider ''completed''"]
    upload_refuses_before_any_call [of "[pdf ''a.pdf'' 3, pdf ''notes.txt'' 1]" "provider ''completed''"]
    upload_refuses_before_any_call [of "[pdf ''a.pdf'' 21]" "provider ''completed''"]
    upload_refuses_before_any_call [of "replicate 11 (pdf ''a.pdf'' 19)" "provider ''completed''"]
    upload_refuses_before_any_call [of "[pdf ''notes.txt'' 1]" "provider ''completed''"]
    none many nopdf nopdf_in big big_in sum one_nopdf
  show ?thesis by (auto simp: refused_locally_def split: option.splits)
qed


text \<open>
  In the second handler the check of the total size cannot be the only one to fail:
  10 files of at most \<open>MAX_FILE_SIZE\<close> each stay within \<open>MAX_TOTAL_SIZE\<close>.
\<close>

lemma total_size_within_limit:
  assumes "length files \<le> 10" and "\<forall>f \<in> set files. file_size f \<le> MAX_FILE_SIZE"
  shows "total_size files \<le> MAX_TOTAL_SIZE"
proof -
  from assms(2) have "total_size files \<le> length files * MAX_FILE_SIZE"
    by (induction files) (auto simp: total_size_def)
  also from assms(1) have "\<dots> \<le> 10 * MAX_FILE_SIZE" by simp
  also have "\<dots> = MAX_TOTAL_SIZE" by (simp add: MAX_FILE_SIZE_def MAX_TOTAL_SIZE_def)
  finally show ?thesis .
qed

text \<open>
  The first handler goes on to the provider with any non-empty batch of \<open>.pdf\<close> names,
  whatever the number and the sizes of the files.
\<close>

lemma check_files_1_all_pdf:
  "\<forall>f \<in> set files. has_pdf_extension f \<Longrightarrow> check_files_1 files = None"
  by (induction files) auto

lemma POST_upload_1_calls_provider:
  assumes "files \<noteq> []" and "\<forall>f \<in> set files. has_pdf_extension f"
  shows "\<exists>evs. fst (POST_upload_1 env (Inr files)) = Call VectorStoresCreate # evs"
  using assms
  by (auto simp: POST_upload_1_def check_files_1_all_pdf store_and_upload_def
      split: sum.splits prod.splits ending.splits)

lemma POST_upload_1_oversized:
  "POST_upload_1 (provider ''completed'') (Inr [pdf ''a.pdf'' 21]) =
     ([Call VectorStoresCreate, Call (FilesCreate (pdf ''a.pdf'' 21)),
       Call (FileBatchesCreateAndPoll ''vs_1'' [''id_a.pdf''])],
      Some \<lparr>status = 200,
            body = Uploaded ''vs_1'' ''Successfully uploaded 1 PDF files to vector store.'' 1
                     ''batch_1''\<rparr>)"
proof -
  have name: "file_name (pdf ''a.pdf'' 21) = ''a.pdf''" by (simp add: pdf_def)
  have "check_files_1 [pdf ''a.pdf'' 21] = None"
    by (simp add: has_pdf_extension_samples)
  then show ?thesis
    by (simp add: POST_upload_1_def store_and_upload_def upload_and_attach_def attach_def
        provider_def name string_of_nat.simps)
qed

text \<open>
  C5. The first handler does not do what the claim says. It has no limit on the number
  of files, on the size of a file or on the total size: one file of 21 MB is uploaded
  and attached and the answer is the success body, and a batch of 11 files of 19 MB
  (209 MB in all) goes on to the creation of the store. The second handler refuses
  both batches with status 400 before any call.
\<close>

theorem first_handler_sends_unchecked_batches:
  "file_size (pdf ''a.pdf'' 21) > MAX_FILE_SIZE \<and>
   POST_upload_1 (provider ''completed'') (Inr [pdf ''a.pdf'' 21]) =
     ([Call VectorStoresCreate, Call (FilesCreate (pdf ''a.pdf'' 21)),
       Call (FileBatchesCreateAndPoll ''vs_1'' [''id_a.pdf''])],
      Some \<lparr>status = 200,
            body = Uploaded ''vs_1'' ''Successfully uploaded 1 PDF files to vector store.'' 1
                     ''batch_1''\<rparr>) \<and>
   refused_locally (POST_upload_2 (provider ''completed'') (Inr [pdf ''a.pdf'' 21])) \<and>
   length (replicate 11 (pdf ''a.pdf'' 19)) > 10 \<and>
   total_size (replicate 11 (pdf ''a.pdf'' 19)) > MAX_TOTAL_SIZE \<and>
   (\<exists>evs. fst (POST_upload_1 (provider ''completed'') (Inr (replicate 11 (pdf ''a.pdf'' 19))))
            = Call VectorStoresCreate # evs) \<and>
   refused_locally (POST_upload_2 (provider ''completed'') (Inr (replicate 11 (pdf ''a.pdf'' 19))))"
proof -
  have big: "file_size (pdf ''a.pdf'' 21) > MAX_FILE_SIZE"
    by (simp add: pdf_def MAX_FILE_SIZE_def)
  have many: "length (replicate 11 (pdf ''a.pdf'' 19)) > 10" by simp
  have heavy: "total_size (replicate 11 (pdf ''a.pdf'' 19)) > MAX_TOTAL_SIZE"
    by (simp add: total_size_def pdf_def MAX_TOTAL_SIZE_def sum_list_replicate)
  have sent: "\<exists>evs. fst (POST_upload_1 (provider ''completed'')
                        (Inr (replicate 11 (pdf ''a.pdf'' 19))))
            = Call VectorStoresCreate # evs"
    by (rule POST_upload_1_calls_provider) (simp_all add: has_pdf_extension_samples)
  from big have "\<exists>f \<in> set [pdf ''a.pdf'' 21]. file_size f > MAX_FILE_SIZE" by simp
  with upload_refuses_before_any_call [of "[pdf ''a.pdf'' 21]" "provider ''completed''"]
  have refused_big: "refused_locally (POST_upload_2 (provider ''completed'') (Inr [pdf ''a.pdf'' 21]))"
    by blast
  from many upload_refuses_before_any_call [of "replicate 11 (pdf ''a.pdf'' 19)" "provider ''completed''"]
  have refused_many: "refused_locally (POST_upload_2 (provider ''completed'')
                        (Inr (replicate 11 (pdf ''a.pdf'' 19))))"
    by blast
  from big POST_upload_1_oversized refused_big many heavy sent refused_many
  show ?thesis by blast
qed

subsection \<open>What a passing batch ends with\<close>

lemma POST_upload_2_passes:
  "passes files \<Longrightarrow>
     POST_upload_2 env (Inr files) = store_and_upload upload_files_2 upload_catch_2 env files"
  by (auto simp: passes_def POST_upload_2_def list_all_iff check_files_2_total)

lemma upload_files_2_no_deletion:
  "upload_files_2 env files acc = (evs, ids, r) \<Longrightarrow> \<not> list_ex is_deletion evs"
proof (induction files arbitrary: acc evs ids r)
  case Nil
  then show ?case by simp
next
  case (Cons f fs)
  show ?case
  proof (cases "files_create env (length acc) f")
    case (Inl e)
    with Cons.prems show ?thesis by auto
  next
    case (Inr fileId)
    obtain evs' ids' r' where rest: "upload_files_2 env fs (acc @ [fileId]) = (evs', ids', r')"
      by (cases "upload_files_2 env fs (acc @ [fileId])") auto
    from Cons.IH [OF rest] Cons.prems Inr rest show ?thesis by auto
  qed
qed

lemma delete_files_attempts_all:
  "fileId \<in> set ids \<Longrightarrow> Call (FilesDel fileId) \<in> set (delete_files env i ids)"
  by (induction ids arbitrary: i) auto

lemma delete_files_logs:
  "k < length ids \<Longrightarrow> files_del env (i + k) (ids ! k) \<noteq> None \<Longrightarrow>
     ConsoleWarn (''Failed to delete OpenAI file '' @ ids ! k @ '':'') \<in> set (delete_files env i ids)"
proof (induction ids arbitrary: i k)
  case Nil
  then show ?case by simp
next
  case (Cons fileId ids)
  show ?case
  proof (cases k)
    case 0
    with Cons.prems show ?thesis by auto
  next
    case (Suc k')
    with Cons.prems have "k' < length ids" "files_del env (Suc i + k') (ids ! k') \<noteq> None"
      by simp_all
    from Cons.IH [of k' "Suc i"] this Suc show ?thesis by simp
  qed
qed

lemma cleanupResources_attempts_all:
  "(\<forall>fileId \<in> set ids. Call (FilesDel fileId) \<in> set (cleanupResources env vsId ids))
   \<and> Call (VectorStoresDel vsId) \<in> set (cleanupResources env vsId ids)"
  by (simp add: cleanupResources_def delete_files_attempts_all)

lemma cleanupResources_logs:
  "(\<forall>k < length ids. files_del env k (ids ! k) \<noteq> None \<longrightarrow>
       ConsoleWarn (''Failed to delete OpenAI file '' @ ids ! k @ '':'')
         \<in> set (cleanupResources env vsId ids))
   \<and> (vectorStores_del env vsId \<noteq> None \<longrightarrow>
       ConsoleWarn (''Failed to delete vector store '' @ vsId @ '':'')
         \<in> set (cleanupResources env vsId ids))"
  using delete_files_logs [of _ ids env 0]
  by (auto simp: cleanupResources_def)

lemma new_Response_body: "new_Response st b = Some r \<Longrightarrow> body r = b"
  by (auto simp: new_Response_def split: option.splits if_splits)

lemma upload_catch_2_message: "upload_catch_2 e = Some r \<Longrightarrow> \<exists>m. body r = Message m"
  by (cases e)
    (auto simp: upload_catch_2_def Let_def split: status_property.splits if_splits
      dest: new_Response_body)

lemma upload_catch_2_not_uploaded: "upload_catch_2 e = Some r \<Longrightarrow> body r \<noteq> Uploaded h m n b"
  using upload_catch_2_message [of e r] by auto

lemma upload_catch_2_no_status:
  "\<exists>r. upload_catch_2 (Err m NoStatus) = Some r \<and> (status r = 500 \<or> status r = 400)
       \<and> (\<exists>msg. body r = Message msg)"
  by (auto simp: upload_catch_2_def status_code_def new_Response_def Let_def)

lemma upload_files_2_ids:
  "upload_files_2 env files acc = (evs, ids, failure) \<Longrightarrow>
     \<exists>new. ids = acc @ new \<and> length new \<le> length files \<and>
       (\<forall>i < length new. files_create env (length acc + i) (files ! i) = Inr (new ! i)) \<and>
       (failure = None \<longrightarrow> length new = length files) \<and>
       (\<forall>e. failure = Some e \<longrightarrow>
          length new < length files \<and>
          (\<exists>e'. files_create env (length acc + length new) (files ! length new) = Inl e') \<and>
          e = Err (Some (''Failed to upload file '' @ file_name (files ! length new)
                           @ ''. Please try again.'')) NoStatus) \<and>
       filter is_call evs =
         map (\<lambda>f. Call (FilesCreate f))
           (take (length new + (if failure = None then 0 else 1)) files)"
proof (induction files arbitrary: acc evs ids failure)
  case Nil
  then show ?case by simp
next
  case (Cons f fs)
  show ?case
  proof (cases "files_create env (length acc) f")
    case (Inl e)
    with Cons.prems show ?thesis by auto
  next
    case (Inr fileId)
    obtain evs' ids' failure' where
      rest: "upload_files_2 env fs (acc @ [fileId]) = (evs', ids', failure')"
      by (cases "upload_files_2 env fs (acc @ [fileId])") auto
    with Cons.prems Inr have out: "evs = Call (FilesCreate f) # evs'" "ids = ids'" "failure = failure'"
      by simp_all
    from Cons.IH [OF rest] obtain new where
      new: "ids' = (acc @ [fileId]) @ new" "length new \<le> length fs"
      and got: "\<forall>i < length new. files_create env (length (acc @ [fileId]) + i) (fs ! i) = Inr (new ! i)"
      and all: "failure' = None \<longrightarrow> length new = length fs"
      and stop: "\<forall>e. failure' = Some e \<longrightarrow>
          length new < length fs \<and>
          (\<exists>e'. files_create env (length (acc @ [fileId]) + length new) (fs ! length new) = Inl e') \<and>
          e = Err (Some (''Failed to upload file '' @ file_name (fs ! length new)
                           @ ''. Please try again.'')) NoStatus"
      and calls: "filter is_call evs' =
         map (\<lambda>f. Call (FilesCreate f))
           (take (length new + (if failure' = None then 0 else 1)) fs)"
      by blast
    have got': "\<forall>i < length (fileId # new).
        files_create env (length acc + i) ((f # fs) ! i) = Inr ((fileId # new) ! i)"
    proof (intro allI impI)
      fix i assume "i < length (fileId # new)"
      then show "files_create env (length acc + i) ((f # fs) ! i) = Inr ((fileId # new) ! i)"
        using got Inr by (cases i) auto
    qed
    show ?thesis
    proof (intro exI [of _ "fileId # new"] conjI)
      show "ids = acc @ fileId # new" using out new by simp
      show "length (fileId # new) \<le> length (f # fs)" using new by simp
      show "\<forall>i < length (fileId # new).
        files_create env (length acc + i) ((f # fs) ! i) = Inr ((fileId # new) ! i)"
        by (rule got')
      show "failure = None \<longrightarrow> length (fileId # new) = length (f # fs)"
        using all out by simp
      show "\<forall>e. failure = Some e \<longrightarrow>
          length (fileId # new) < length (f # fs) \<and>
          (\<exists>e'. files_create env (length acc + length (fileId # new))
                  ((f # fs) ! length (fileId # new)) = Inl e') \<and>
          e = Err (Some (''Failed to upload file '' @ file_name ((f # fs) ! length (fileId # new))
                           @ ''. Please try again.'')) NoStatus"
        using stop out by simp
      show "filter is_call evs =
         map (\<lambda>f. Call (FilesCreate f))
           (take (length (fileId # new) + (if failure = None then 0 else 1)) (f # fs))"
        using calls out by simp
    qed
  qed
qed

lemma upload_files_2_ignores_deletions:
  "upload_files_2 (env\<lparr>files_del := fd, vectorStores_del := vd\<rparr>) files acc
     = upload_files_2 env files acc"
  by (induction files arbitrary: acc) (auto split: sum.splits)

lemma store_and_upload_ignores_deletions:
  "snd (store_and_upload upload_files_2 upload_catch_2
          (env\<lparr>files_del := fd, vectorStores_del := vd\<rparr>) files)
     = snd (store_and_upload upload_files_2 upload_catch_2 env files)"
  by (simp add: store_and_upload_def upload_and_attach_def attach_def
      upload_files_2_ignores_deletions
      split: sum.splits prod.splits option.splits ending.splits)


lemma passes_two_pdfs: "passes two_pdfs"
proof -
  have "file_size (pdf n k) = k * 1024 * 1024" for n k by (simp add: pdf_def)
  then show ?thesis
    by (simp add: passes_def two_pdfs_def has_pdf_extension_samples total_size_def
        MAX_FILE_SIZE_def MAX_TOTAL_SIZE_def)
qed

lemma upload_two_pdfs:
  "upload_files_2 (provider st) two_pdfs [] =
     ([Call (FilesCreate (pdf ''a.pdf'' 3)), Call (FilesCreate (pdf ''B.PDF'' 5))],
      [''id_a.pdf'', ''id_B.PDF''], None)"
  by (simp add: two_pdfs_def provider_def pdf_def)

lemma upload_two_pdfs_second_fails:
  "upload_files_2 provider_second_upload_fails two_pdfs [] =
     ([Call (FilesCreate (pdf ''a.pdf'' 3)), Call (FilesCreate (pdf ''B.PDF'' 5)),
       ConsoleError ''Failed to upload file B.PDF:''],
      [''id_a.pdf''],
      Some (Err (Some ''Failed to upload file B.PDF. Please try again.'') NoStatus))"
  by (simp add: two_pdfs_def provider_second_upload_fails_def provider_def pdf_def)

lemma upload_catch_2_failed_file:
  "upload_catch_2 (Err (Some ''Failed to upload file B.PDF. Please try again.'') NoStatus) =
     Some \<lparr>status = 500, body = Message ''Failed to upload file B.PDF. Please try again.''\<rparr>"
  by (simp add: upload_catch_2_def status_code_def new_Response_def)

text \<open>
  C6. For a batch that passes validation, once the store exists. The upload loop stops
  at the first file whose upload fails; the identifiers it has collected are those the
  provider returned for the files before that one, in order, and for all files when none
  fails. The handler answers with the success body (store handle, number of files,
  batch) exactly when every file was uploaded and the attach call ended as
  \<open>completed\<close>. When the attach call ends as \<open>failed\<close>, when it throws, or when a file
  upload fails, \<open>cleanupResources\<close> runs before the error is answered: it calls the
  deletion of every collected identifier and of the store, writes a warning for a
  deletion that fails, and cannot throw, so that the response does not depend on how
  the deletions end. A failed file upload is answered with a message and status 500
  (400 when the message reads as "too large"). Any other status of the attach call
  gives the "still in progress" body with the store handle (its HTTP status is 200 as
  well), and no deletion is called.
\<close>

theorem upload_outcomes:
  assumes ok: "passes files"
    and store: "vectorStores_create env = Inr vsId"
    and up: "upload_files_2 env files [] = (evs, ids, failure)"
  shows
    "length ids \<le> length files \<and>
     (\<forall>i < length ids. files_create env i (files ! i) = Inr (ids ! i)) \<and>
     (failure = None \<longrightarrow> length ids = length files) \<and>
     (\<forall>e. failure = Some e \<longrightarrow>
        length ids < length files \<and>
        (\<exists>e'. files_create env (length ids) (files ! length ids) = Inl e') \<and>
        e = Err (Some (''Failed to upload file '' @ file_name (files ! length ids)
                         @ ''. Please try again.'')) NoStatus) \<and>
     filter is_call evs =
       map (\<lambda>f. Call (FilesCreate f))
         (take (length ids + (if failure = None then 0 else 1)) files) \<and>
     (failure = None \<and> fileBatches_createAndPoll env vsId ids = Inr (batchId, ''completed'') \<longrightarrow>
        POST_upload_2 env (Inr files) =
          (Call VectorStoresCreate # evs @ [Call (FileBatchesCreateAndPoll vsId ids)],
           Some \<lparr>status = 200,
            body = Uploaded vsId
              (''Successfully uploaded '' @ string_of_nat (length files)
                 @ '' PDF files to vector store.'')
              (length files) batchId\<rparr>)) \<and>
     ((\<exists>r h m n b. snd (POST_upload_2 env (Inr files)) = Some r \<and> body r = Uploaded h m n b) \<longrightarrow>
        failure = None \<and> (\<exists>b. fileBatches_createAndPoll env vsId ids = Inr (b, ''completed''))) \<and>
     (failure = None \<and> fileBatches_createAndPoll env vsId ids = Inr (batchId, ''failed'') \<longrightarrow>
        POST_upload_2 env (Inr files) =
          (Call VectorStoresCreate # evs @ Call (FileBatchesCreateAndPoll vsId ids)
             # cleanupResources env vsId ids,
           Some \<lparr>status = 500,
            body = Message ''File upload batch failed. Please try again with different files.''\<rparr>)) \<and>
     (\<forall>e. failure = Some e \<longrightarrow>
        POST_upload_2 env (Inr files) =
          (Call VectorStoresCreate # evs @ cleanupResources env vsId ids
             @ [ConsoleError ''API Error in /api/upload:''],
           upload_catch_2 e)
        \<and> (\<exists>r. upload_catch_2 e = Some r \<and> (status r = 500 \<or> status r = 400)
                \<and> (\<exists>m. body r = Message m))) \<and>
     (\<forall>e. failure = None \<and> fileBatches_createAndPoll env vsId ids = Inl e \<longrightarrow>
        POST_upload_2 env (Inr files) =
          (Call VectorStoresCreate # evs @ Call (FileBatchesCreateAndPoll vsId ids)
             # cleanupResources env vsId ids @ [ConsoleError ''API Error in /api/upload:''],
           upload_catch_2 e)) \<and>
     (failure = None \<and> fileBatches_createAndPoll env vsId ids = Inr (batchId, st)
        \<and> st \<noteq> ''completed'' \<and> st \<noteq> ''failed'' \<longrightarrow>
        POST_upload_2 env (Inr files) =
          (Call VectorStoresCreate # evs @ [Call (FileBatchesCreateAndPoll vsId ids)],
           Some \<lparr>status = 200,
            body = InProgress (''File upload is still in progress. Status: '' @ st) vsId batchId\<rparr>)) \<and>
     \<not> list_ex is_deletion
         (Call VectorStoresCreate # evs @ [Call (FileBatchesCreateAndPoll vsId ids)]) \<and>
     (\<forall>fileId \<in> set ids. Call (FilesDel fileId) \<in> set (cleanupResources env vsId ids)) \<and>
     Call (VectorStoresDel vsId) \<in> set (cleanupResources env vsId ids) \<and>
     (\<forall>k < length ids. files_del env k (ids ! k) \<noteq> None \<longrightarrow>
        ConsoleWarn (''Failed to delete OpenAI file '' @ ids ! k @ '':'')
          \<in> set (cleanupResources env vsId ids)) \<and>
     (vectorStores_del env vsId \<noteq> None \<longrightarrow>
        ConsoleWarn (''Failed to delete vector store '' @ vsId @ '':'')
          \<in> set (cleanupResources env vsId ids)) \<and>
     snd (POST_upload_2 (env\<lparr>files_del := fd, vectorStores_del := vd\<rparr>) (Inr files))
       = snd (POST_upload_2 env (Inr files))"
proof -
  note post = POST_upload_2_passes [OF ok]
  from upload_files_2_ids [OF up]
  have pinned: "length ids \<le> length files \<and>
     (\<forall>i < length ids. files_create env i (files ! i) = Inr (ids ! i)) \<and>
     (failure = None \<longrightarrow> length ids = length files) \<and>
     (\<forall>e. failure = Some e \<longrightarrow>
        length ids < length files \<and>
        (\<exists>e'. files_create env (length ids) (files ! length ids) = Inl e') \<and>
        e = Err (Some (''Failed to upload file '' @ file_name (files ! length ids)
                         @ ''. Please try again.'')) NoStatus) \<and>
     filter is_call evs =
       map (\<lambda>f. Call (FilesCreate f))
         (take (length ids + (if failure = None then 0 else 1)) files)"
    by simp
  have completed: "failure = None \<and> fileBatches_createAndPoll env vsId ids = Inr (batchId, ''completed'') \<longrightarrow>
        POST_upload_2 env (Inr files) =
          (Call VectorStoresCreate # evs @ [Call (FileBatchesCreateAndPoll vsId ids)],
           Some \<lparr>status = 200,
            body = Uploaded vsId
              (''Successfully uploaded '' @ string_of_nat (length files)
                 @ '' PDF files to vector store.'')
              (length files) batchId\<rparr>)"
    using store up by (simp add: post store_and_upload_def upload_and_attach_def attach_def)
  have only: "(\<exists>r h m n b. snd (POST_upload_2 env (Inr files)) = Some r \<and> body r = Uploaded h m n b) \<longrightarrow>
        failure = None \<and> (\<exists>b. fileBatches_createAndPoll env vsId ids = Inr (b, ''completed''))"
    using store up
    by (auto simp: post store_and_upload_def upload_and_attach_def attach_def
        upload_catch_2_not_uploaded
        split: option.splits sum.splits prod.splits if_splits)
  have failed: "failure = None \<and> fileBatches_createAndPoll env vsId ids = Inr (batchId, ''failed'') \<longrightarrow>
        POST_upload_2 env (Inr files) =
          (Call VectorStoresCreate # evs @ Call (FileBatchesCreateAndPoll vsId ids)
             # cleanupResources env vsId ids,
           Some \<lparr>status = 500,
            body = Message ''File upload batch failed. Please try again with different files.''\<rparr>)"
    using store up by (simp add: post store_and_upload_def upload_and_attach_def attach_def)
  have file_failed: "\<forall>e. failure = Some e \<longrightarrow>
        POST_upload_2 env (Inr files) =
          (Call VectorStoresCreate # evs @ cleanupResources env vsId ids
             @ [ConsoleError ''API Error in /api/upload:''],
           upload_catch_2 e)
        \<and> (\<exists>r. upload_catch_2 e = Some r \<and> (status r = 500 \<or> status r = 400)
                \<and> (\<exists>m. body r = Message m))"
  proof (intro allI impI)
    fix e assume e: "failure = Some e"
    with pinned obtain m where m: "e = Err m NoStatus" by blast
    have "POST_upload_2 env (Inr files) =
          (Call VectorStoresCreate # evs @ cleanupResources env vsId ids
             @ [ConsoleError ''API Error in /api/upload:''],
           upload_catch_2 e)"
      using store up e by (simp add: post store_and_upload_def upload_and_attach_def)
    with upload_catch_2_no_status [of m] m
    show "POST_upload_2 env (Inr files) =
          (Call VectorStoresCreate # evs @ cleanupResources env vsId ids
             @ [ConsoleError ''API Error in /api/upload:''],
           upload_catch_2 e)
        \<and> (\<exists>r. upload_catch_2 e = Some r \<and> (status r = 500 \<or> status r = 400)
                \<and> (\<exists>m. body r = Message m))"
      by simp
  qed
  have attach_threw: "\<forall>e. failure = None \<and> fileBatches_createAndPoll env vsId ids = Inl e \<longrightarrow>
        POST_upload_2 env (Inr files) =
          (Call VectorStoresCreate # evs @ Call (FileBatchesCreateAndPoll vsId ids)
             # cleanupResources env vsId ids @ [ConsoleError ''API Error in /api/upload:''],
           upload_catch_2 e)"
    using store up by (simp add: post store_and_upload_def upload_and_attach_def attach_def)
  have pending: "failure = None \<and> fileBatches_createAndPoll env vsId ids = Inr (batchId, st)
        \<and> st \<noteq> ''completed'' \<and> st \<noteq> ''failed'' \<longrightarrow>
        POST_upload_2 env (Inr files) =
          (Call VectorStoresCreate # evs @ [Call (FileBatchesCreateAndPoll vsId ids)],
           Some \<lparr>status = 200,
            body = InProgress (''File upload is still in progress. Status: '' @ st) vsId batchId\<rparr>)"
    using store up by (simp add: post store_and_upload_def upload_and_attach_def attach_def)
  have quiet: "\<not> list_ex is_deletion
         (Call VectorStoresCreate # evs @ [Call (FileBatchesCreateAndPoll vsId ids)])"
    using upload_files_2_no_deletion [OF up] by (simp add: list_ex_iff)
  have indep: "snd (POST_upload_2 (env\<lparr>files_del := fd, vectorStores_del := vd\<rparr>) (Inr files))
       = snd (POST_upload_2 env (Inr files))"
    by (simp add: post POST_upload_2_passes [OF ok] store_and_upload_ignores_deletions)
  note attempts = cleanupResources_attempts_all [of ids env vsId]
  note logs = cleanupResources_logs [of ids env vsId]
  from pinned completed only failed file_failed attach_threw pending quiet attempts logs indep
  show ?thesis by - (elim conjE; intro conjI; assumption)
qed

theorem upload_outcomes_witness:
  "passes two_pdfs \<and>
   POST_upload_2 (provider ''completed'') (Inr two_pdfs) =
     ([Call VectorStoresCreate, Call (FilesCreate (pdf ''a.pdf'' 3)),
       Call (FilesCreate (pdf ''B.PDF'' 5)),
       Call (FileBatchesCreateAndPoll ''vs_1'' [''id_a.pdf'', ''id_B.PDF''])],
      Some \<lparr>status = 200,
       body = Uploaded ''vs_1'' ''Successfully uploaded 2 PDF files to vector store.'' 2 ''batch_1''\<rparr>) \<and>
   POST_upload_2 (provider ''failed'') (Inr two_pdfs) =
     ([Call VectorStoresCreate, Call (FilesCreate (pdf ''a.pdf'' 3)),
       Call (FilesCreate (pdf ''B.PDF'' 5)),
       Call (FileBatchesCreateAndPoll ''vs_1'' [''id_a.pdf'', ''id_B.PDF'']),
       Call (FilesDel ''id_a.pdf''), ConsoleWarn ''Failed to delete OpenAI file id_a.pdf:'',
       Call (FilesDel ''id_B.PDF''), Call (VectorStoresDel ''vs_1'')],
      Some \<lparr>status = 500,
       body = Message ''File upload batch failed. Please try again with different files.''\<rparr>) \<and>
   POST_upload_2 provider_second_upload_fails (Inr two_pdfs) =
     ([Call VectorStoresCreate, Call (FilesCreate (pdf ''a.pdf'' 3)),
       Call (FilesCreate (pdf ''B.PDF'' 5)), ConsoleError ''Failed to upload file B.PDF:'',
       Call (FilesDel ''id_a.pdf''), ConsoleWarn ''Failed to delete OpenAI file id_a.pdf:'',
       Call (VectorStoresDel ''vs_1''), ConsoleError ''API Error in /api/upload:''],
      Some \<lparr>status = 500, body = Message ''Failed to upload file B.PDF. Please try again.''\<rparr>) \<and>
   files_create provider_second_upload_fails 0 (two_pdfs ! 0) = Inr ''id_a.pdf'' \<and>
   (\<exists>e. files_create provider_second_upload_fails 1 (two_pdfs ! 1) = Inl e) \<and>
   POST_upload_2 (provider ''in_progress'') (Inr two_pdfs) =
     ([Call VectorStoresCreate, Call (FilesCreate (pdf ''a.pdf'' 3)),
       Call (FilesCreate (pdf ''B.PDF'' 5)),
       Call (FileBatchesCreateAndPoll ''vs_1'' [''id_a.pdf'', ''id_B.PDF''])],
      Some \<lparr>status = 200,
       body = InProgress ''File upload is still in progress. Status: in_progress''
                ''vs_1'' ''batch_1''\<rparr>)"
proof -
  have store: "vectorStores_create (provider st) = Inr ''vs_1''" for st
    by (simp add: provider_def)
  have store': "vectorStores_create provider_second_upload_fails = Inr ''vs_1''"
    by (simp add: provider_second_upload_fails_def provider_def)
  have poll: "fileBatches_createAndPoll (provider st) ''vs_1'' [''id_a.pdf'', ''id_B.PDF'']
                = Inr (''batch_1'', st)" for st
    by (simp add: provider_def)
  have two: "string_of_nat (length two_pdfs) = ''2''"
    by (simp add: two_pdfs_def string_of_nat.simps)
  have clean: "cleanupResources (provider st) ''vs_1'' [''id_a.pdf'', ''id_B.PDF''] =
      [Call (FilesDel ''id_a.pdf''), ConsoleWarn ''Failed to delete OpenAI file id_a.pdf:'',
       Call (FilesDel ''id_B.PDF''), Call (VectorStoresDel ''vs_1'')]" for st
    by (simp add: cleanupResources_def provider_def)
  have clean': "cleanupResources provider_second_upload_fails ''vs_1'' [''id_a.pdf''] =
      [Call (FilesDel ''id_a.pdf''), ConsoleWarn ''Failed to delete OpenAI file id_a.pdf:'',
       Call (VectorStoresDel ''vs_1'')]"
    by (simp add: cleanupResources_def provider_second_upload_fails_def provider_def)
  have len: "length two_pdfs = 2" by (simp add: two_pdfs_def)
  have a: "POST_upload_2 (provider ''completed'') (Inr two_pdfs) =
     ([Call VectorStoresCreate, Call (FilesCreate (pdf ''a.pdf'' 3)),
       Call (FilesCreate (pdf ''B.PDF'' 5)),
       Call (FileBatchesCreateAndPoll ''vs_1'' [''id_a.pdf'', ''id_B.PDF''])],
      Some \<lparr>status = 200,
       body = Uploaded ''vs_1'' ''Successfully uploaded 2 PDF files to vector store.'' 2 ''batch_1''\<rparr>)"
    using upload_outcomes [OF passes_two_pdfs store upload_two_pdfs,
        where batchId = "''batch_1''" and st = "''completed''"]
      poll [of "''completed''"] two len
    by simp
  have b: "POST_upload_2 (provider ''failed'') (Inr two_pdfs) =
     ([Call VectorStoresCreate, Call (FilesCreate (pdf ''a.pdf'' 3)),
       Call (FilesCreate (pdf ''B.PDF'' 5)),
       Call (FileBatchesCreateAndPoll ''vs_1'' [''id_a.pdf'', ''id_B.PDF'']),
       Call (FilesDel ''id_a.pdf''), ConsoleWarn ''Failed to delete OpenAI file id_a.pdf:'',
       Call (FilesDel ''id_B.PDF''), Call (VectorStoresDel ''vs_1'')],
      Some \<lparr>status = 500,
       body = Message ''File upload batch failed. Please try again with different files.''\<rparr>)"
    using upload_outcomes [OF passes_two_pdfs store upload_two_pdfs,
        where batchId = "''batch_1''" and st = "''failed''"]
      poll [of "''failed''"] clean [of "''failed''"]
    by simp
  note second = upload_outcomes [OF passes_two_pdfs store' upload_two_pdfs_second_fails]
  have c: "POST_upload_2 provider_second_upload_fails (Inr two_pdfs) =
     ([Call VectorStoresCreate, Call (FilesCreate (pdf ''a.pdf'' 3)),
       Call (FilesCreate (pdf ''B.PDF'' 5)), ConsoleError ''Failed to upload file B.PDF:'',
       Call (FilesDel ''id_a.pdf''), ConsoleWarn ''Failed to delete OpenAI file id_a.pdf:'',
       Call (VectorStoresDel ''vs_1''), ConsoleError ''API Error in /api/upload:''],
      Some \<lparr>status = 500, body = Message ''Failed to upload file B.PDF. Please try again.''\<rparr>)"
    using second clean' upload_catch_2_failed_file
    by simp
  have c': "files_create provider_second_upload_fails 0 (two_pdfs ! 0) = Inr ''id_a.pdf'' \<and>
   (\<exists>e. files_create provider_second_upload_fails 1 (two_pdfs ! 1) = Inl e)"
    using second by simp
  have d: "POST_upload_2 (provider ''in_progress'') (Inr two_pdfs) =
     ([Call VectorStoresCreate, Call (FilesCreate (pdf ''a.pdf'' 3)),
       Call (FilesCreate (pdf ''B.PDF'' 5)),
       Call (FileBatchesCreateAndPoll ''vs_1'' [''id_a.pdf'', ''id_B.PDF''])],
      Some \<lparr>status = 200,
       body = InProgress ''File upload is still in progress. Status: in_progress''
                ''vs_1'' ''batch_1''\<rparr>)"
    using upload_outcomes [OF passes_two_pdfs store upload_two_pdfs,
        where batchId = "''batch_1''" and st = "''in_progress''"]
      poll [of "''in_progress''"]
    by simp
  from passes_two_pdfs a b c c' d show ?thesis by simp
qed

section \<open>Properties of the generation route\<close>

lemma those_map_all:
  "those (map f xs) = Some ys \<Longrightarrow> (\<And>x y. f x = Some y \<Longrightarrow> P y) \<Longrightarrow>
     length ys = length xs \<and> list_all P ys"
proof (induction xs arbitrary: ys)
  case Nil
  then show ?case by simp
next
  case (Cons x xs)
  from Cons.prems(1) obtain y ys' where
    y: "f x = Some y" and rest: "those (map f xs) = Some ys'" and ys: "ys = y # ys'"
    by (auto split: option.splits)
  from Cons.IH [OF rest Cons.prems(2)] Cons.prems(2) [OF y] ys show ?case by simp
qed

lemma QuizOptionSchema_text: "QuizOptionSchema j = Some opt \<Longrightarrow> option_text opt \<noteq> []"
  by (auto simp: QuizOptionSchema_def split: json.splits option.splits if_splits)

lemma QuizQuestionSchema_shape: "QuizQuestionSchema j = Some q \<Longrightarrow> well_shaped q"
proof -
  assume parsed: "QuizQuestionSchema j = Some q"
  then obtain t os opts where
    opts: "those (map QuizOptionSchema os) = Some opts"
    and q: "q = \<lparr>question = t, options = opts\<rparr>"
    and bounds: "length t \<ge> 1" "length os \<ge> 2" "length os \<le> 4"
    by (auto simp: QuizQuestionSchema_def split: json.splits option.splits if_splits)
  from those_map_all [OF opts, of "\<lambda>opt. option_text opt \<noteq> []"] QuizOptionSchema_text
  have "length opts = length os" and "list_all (\<lambda>opt. option_text opt \<noteq> []) opts"
    by blast+
  with q bounds show ?thesis by (auto simp: well_shaped_def)
qed

lemma QuizSchema_shape: "QuizSchema j = Some quiz \<Longrightarrow> quiz_well_shaped quiz"
proof -
  assume parsed: "QuizSchema j = Some quiz"
  then obtain qs where
    quiz: "those (map QuizQuestionSchema qs) = Some quiz"
    and bounds: "length qs \<ge> 1" "length qs \<le> 10"
    by (auto simp: QuizSchema_def split: json.splits option.splits if_splits)
  from those_map_all [OF quiz, of well_shaped] QuizQuestionSchema_shape
  have "length quiz = length qs" and "list_all well_shaped quiz"
    by blast+
  with bounds show ?thesis by (auto simp: quiz_well_shaped_def)
qed

lemma generate_catch_message: "generate_catch t = Some r \<Longrightarrow> \<exists>m. body r = Message m"
proof (cases t)
  case Zod
  then show "generate_catch t = Some r \<Longrightarrow> \<exists>m. body r = Message m"
    by (auto simp: generate_catch_def)
next
  case (Js e)
  then show "generate_catch t = Some r \<Longrightarrow> \<exists>m. body r = Message m"
    by (cases e)
      (auto simp: generate_catch_def Let_def split: status_property.splits
        dest: new_Response_body)
qed


text \<open>
  Two things the \<open>catch\<close> blocks do with a thrown value that are left out of the
  statements below: a \<open>status\<close> property that is there and \<open>undefined\<close> gives a response
  with status 200, and a number that the \<open>Response\<close> constructor does not accept gives
  no response at all.
\<close>

lemma generate_catch_other_statuses:
  "err_status e = StatusUndefined \<Longrightarrow> map_option status (generate_catch (Js e)) = Some 200"
  "err_status e = StatusNumber n \<Longrightarrow> \<not> answerable n \<Longrightarrow> generate_catch (Js e) = None"
  by (cases e; auto simp: generate_catch_def status_code_def new_Response_def answerable_def Let_def)+

lemma validate_reply_quiz:
  "validate_reply env aid tid j = (evs, Returned r) \<Longrightarrow> validated r"
  by (auto simp: validate_reply_def delete_transient_def validated_def
      split: option.splits prod.splits)

lemma parse_reply_quiz:
  "parse_reply env aid tid text = (evs, Returned r) \<Longrightarrow> validated r"
  by (auto simp: parse_reply_def Let_def split: option.splits sum.splits prod.splits
      dest: validate_reply_quiz)

lemma after_run_quiz:
  "after_run env aid tid st = (evs, Returned r) \<Longrightarrow> validated r"
  by (auto simp: after_run_def delete_transient_def
      split: if_splits option.splits sum.splits prod.splits dest: parse_reply_quiz)

lemma generate_quiz:
  "generate env vsId ex = (evs, Returned r) \<Longrightarrow> validated r"
  by (auto simp: generate_def split: option.splits sum.splits prod.splits dest: after_run_quiz)

lemma check_store_quiz:
  "check_store env vsId ex = (evs, Returned r) \<Longrightarrow> body r = QuizBody quiz \<Longrightarrow> validated r"
  by (auto simp: check_store_def split: option.splits sum.splits prod.splits if_splits
      dest: generate_quiz)

lemma generate_try_quiz:
  "generate_try env req = (evs, Returned r) \<Longrightarrow> body r = QuizBody quiz \<Longrightarrow> validated r"
  by (auto simp: generate_try_def split: sum.splits json.splits option.splits if_splits
      dest: check_store_quiz)

lemma POST_generate_quiz:
  assumes "snd (POST_generate env req) = Some r" and "body r = QuizBody quiz"
  shows "(\<exists>j. QuizSchema j = Some quiz) \<and> status r = 200"
proof (cases "generate_try env req")
  case (Pair evs ending)
  show ?thesis
  proof (cases ending)
    case (Returned r')
    with Pair assms generate_try_quiz [of env req evs r quiz] show ?thesis
      by (simp add: POST_generate_def validated_def)
  next
    case (Threw_up t)
    with Pair assms generate_catch_message [of t r] show ?thesis
      by (auto simp: POST_generate_def)
  qed
qed

lemmas schema_eval =
  QuizSchema_def QuizQuestionSchema_def QuizOptionSchema_def property_def
  quiz_json_def option_json_def

lemmas generate_eval =
  POST_generate_def generate_try_def check_store_def generate_def after_run_def
  parse_reply_def validate_reply_def delete_transient_def generate_catch_def
  generator_def start_request_def generate_calls_def message_or_def
  status_code_def status_text_def new_Response_def

lemma QuizSchema_samples:
  "QuizSchema good_reply = Some [sample_question]"
  "QuizSchema two_correct_reply = Some [two_correct_question]"
  "QuizSchema none_correct_reply = Some [none_correct_question]"
  "QuizSchema one_option_reply = None"
  by (simp_all add: schema_eval good_reply_def two_correct_reply_def none_correct_reply_def
      one_option_reply_def sample_question_def sample_option_def two_correct_question_def
      none_correct_question_def)

lemma POST_generate_samples:
  "QuizSchema reply = Some quiz \<Longrightarrow>
     POST_generate (generator reply) start_request =
       (generate_calls @ [Call (AssistantsDel ''asst_1''), Call (ThreadsDel ''thread_1'')],
        Some \<lparr>status = 200, body = QuizBody quiz\<rparr>)"
  "QuizSchema reply = None \<Longrightarrow>
     POST_generate (generator reply) start_request =
       (generate_calls @ [ConsoleError ''API Error in /api/chat:''],
        Some \<lparr>status = 400, body = Message ''Invalid quiz format generated by AI.''\<rparr>)"
  by (simp_all add: generate_eval property_def)

lemmas fetch_eval =
  fetchQuizFromVectorStore_def fetch_begin_def fetch_end_def handleProcessQuizData_def
  process_rejected_def Let_def

lemma no_quiz_outcome:
  assumes "\<forall>q. q \<noteq> [] \<longrightarrow> outcome \<noteq> Data (Payload (Some q))"
  shows "\<not> quizStarted (fetchQuizFromVectorStore False outcome s)"
    and "questions (fetchQuizFromVectorStore False outcome s) = []"
    and "questions (fetchQuizFromVectorStore True outcome s) = questions s"
    and "quizStarted (fetchQuizFromVectorStore True outcome s) = quizStarted s"
proof -
  from assms consider
    (threw) m where "outcome = Threw m" | (nodata) "outcome = Data NoData"
    | (noquiz) "outcome = Data (Payload None)" | (empty) "outcome = Data (Payload (Some []))"
  proof (cases outcome)
    case (Threw m)
    then show ?thesis using that by blast
  next
    case (Data d)
    show ?thesis
    proof (cases d)
      case NoData
      with Data that show ?thesis by blast
    next
      case (Payload p)
      with Data assms that show ?thesis by (cases p) auto
    qed
  qed
  then have "\<not> quizStarted (fetchQuizFromVectorStore False outcome s)
     \<and> questions (fetchQuizFromVectorStore False outcome s) = []
     \<and> questions (fetchQuizFromVectorStore True outcome s) = questions s
     \<and> quizStarted (fetchQuizFromVectorStore True outcome s) = quizStarted s"
    by cases (simp_all add: fetch_eval)
  then show "\<not> quizStarted (fetchQuizFromVectorStore False outcome s)"
    and "questions (fetchQuizFromVectorStore False outcome s) = []"
    and "questions (fetchQuizFromVectorStore True outcome s) = questions s"
    and "quizStarted (fetchQuizFromVectorStore True outcome s) = quizStarted s"
    by simp_all
qed

subsection \<open>What reaches the session\<close>

text \<open>
  C1, as claimed, fails: nothing counts the \<open>correct\<close> flags. A reply whose only
  question has two options, both flagged correct (or neither), passes \<open>QuizSchema\<close>, is
  answered with status 200, and starts the quiz in the session.
\<close>

theorem one_correct_counterexample:
  "snd (POST_generate (generator two_correct_reply) start_request)
     = Some \<lparr>status = 200, body = QuizBody [two_correct_question]\<rparr> \<and>
   \<not> one_correct two_correct_question \<and>
   questions (fetchQuizFromVectorStore False
      (outcome_of_response \<lparr>status = 200, body = QuizBody [two_correct_question]\<rparr>)
      initial_session) = [two_correct_question] \<and>
   quizStarted (fetchQuizFromVectorStore False
      (outcome_of_response \<lparr>status = 200, body = QuizBody [two_correct_question]\<rparr>)
      initial_session) \<and>
   snd (POST_generate (generator none_correct_reply) start_request)
     = Some \<lparr>status = 200, body = QuizBody [none_correct_question]\<rparr> \<and>
   \<not> one_correct none_correct_question"
  by (simp add: POST_generate_samples(1) [OF QuizSchema_samples(2)]
      POST_generate_samples(1) [OF QuizSchema_samples(3)]
      one_correct_def two_correct_question_def none_correct_question_def
      outcome_of_response_def fetchQuizFromVectorStore_def fetch_begin_def fetch_end_def
      handleProcessQuizData_def initial_session_def Let_def)

text \<open>
  C1, amended. A question set that the generation route answers has passed
  \<open>QuizSchema\<close>: it has 1 to 10 questions, each with a non-empty text and 2 to 4
  options, each option with a non-empty text; the number of options flagged correct is
  not checked. The session takes exactly this set (replacing the list on a fresh
  request, appending on a continuation). A response without a question set does not
  start the quiz on a fresh request and leaves the questions as they are on a
  continuation; so does whatever else the request ends with that is not a non-empty
  question set.
\<close>

theorem delivered_quiz_shape:
  "(snd (POST_generate env req) = Some r \<and> body r = QuizBody quiz \<longrightarrow>
      status r = 200 \<and>
      (\<exists>j. QuizSchema j = Some quiz) \<and>
      1 \<le> length quiz \<and> length quiz \<le> 10 \<and>
      (\<forall>q \<in> set quiz. question q \<noteq> [] \<and> 2 \<le> length (options q) \<and> length (options q) \<le> 4
         \<and> (\<forall>opt \<in> set (options q). option_text opt \<noteq> [])) \<and>
      questions (fetchQuizFromVectorStore False (outcome_of_response r) s) = quiz \<and>
      quizStarted (fetchQuizFromVectorStore False (outcome_of_response r) s) \<and>
      questions (fetchQuizFromVectorStore True (outcome_of_response r) s) = questions s @ quiz) \<and>
   (snd (POST_generate env req) = Some r \<and> (\<forall>q. body r \<noteq> QuizBody q) \<longrightarrow>
      \<not> quizStarted (fetchQuizFromVectorStore False (outcome_of_response r) s) \<and>
      questions (fetchQuizFromVectorStore False (outcome_of_response r) s) = [] \<and>
      questions (fetchQuizFromVectorStore True (outcome_of_response r) s) = questions s \<and>
      quizStarted (fetchQuizFromVectorStore True (outcome_of_response r) s) = quizStarted s) \<and>
   ((\<forall>q. q \<noteq> [] \<longrightarrow> outcome \<noteq> Data (Payload (Some q))) \<longrightarrow>
      \<not> quizStarted (fetchQuizFromVectorStore False outcome s) \<and>
      questions (fetchQuizFromVectorStore False outcome s) = [] \<and>
      questions (fetchQuizFromVectorStore True outcome s) = questions s \<and>
      quizStarted (fetchQuizFromVectorStore True outcome s) = quizStarted s)"
proof (intro conjI impI)
  assume "snd (POST_generate env req) = Some r \<and> body r = QuizBody quiz"
  then have post: "snd (POST_generate env req) = Some r" and quiz: "body r = QuizBody quiz"
    by simp_all
  from POST_generate_quiz [OF post quiz] obtain j where
    j: "QuizSchema j = Some quiz" and ok: "status r = 200" by blast
  from QuizSchema_shape [OF j]
  have shape: "1 \<le> length quiz" "length quiz \<le> 10" "list_all well_shaped quiz"
    by (simp_all add: quiz_well_shaped_def)
  show "status r = 200" by (rule ok)
  show "\<exists>j. QuizSchema j = Some quiz" using j by blast
  show "1 \<le> length quiz" "length quiz \<le> 10" by (rule shape)+
  show "\<forall>q \<in> set quiz. question q \<noteq> [] \<and> 2 \<le> length (options q) \<and> length (options q) \<le> 4
         \<and> (\<forall>opt \<in> set (options q). option_text opt \<noteq> [])"
    using shape(3) by (auto simp: list_all_iff well_shaped_def)
  have out: "outcome_of_response r = Data (Payload (Some quiz))"
    using quiz ok by (simp add: outcome_of_response_def)
  have ne: "quiz \<noteq> []" using shape(1) by auto
  show "questions (fetchQuizFromVectorStore False (outcome_of_response r) s) = quiz"
    using ne
    by (simp add: out fetchQuizFromVectorStore_def fetch_begin_def fetch_end_def
        handleProcessQuizData_def Let_def)
  show "quizStarted (fetchQuizFromVectorStore False (outcome_of_response r) s)"
    using ne
    by (simp add: out fetchQuizFromVectorStore_def fetch_begin_def fetch_end_def
        handleProcessQuizData_def Let_def)
  show "questions (fetchQuizFromVectorStore True (outcome_of_response r) s) = questions s @ quiz"
    using ne
    by (simp add: out fetchQuizFromVectorStore_def fetch_begin_def fetch_end_def
        handleProcessQuizData_def Let_def)
next
  assume "snd (POST_generate env req) = Some r \<and> (\<forall>q. body r \<noteq> QuizBody q)"
  then have none: "\<forall>q. body r \<noteq> QuizBody q" by simp
  then have out: "\<forall>q. q \<noteq> [] \<longrightarrow> outcome_of_response r \<noteq> Data (Payload (Some q))"
    by (cases "body r") (auto simp: outcome_of_response_def)
  from no_quiz_outcome [OF out, of s]
  show "\<not> quizStarted (fetchQuizFromVectorStore False (outcome_of_response r) s)"
    and "questions (fetchQuizFromVectorStore False (outcome_of_response r) s) = []"
    and "questions (fetchQuizFromVectorStore True (outcome_of_response r) s) = questions s"
    and "quizStarted (fetchQuizFromVectorStore True (outcome_of_response r) s) = quizStarted s"
    by simp_all
next
  assume out: "\<forall>q. q \<noteq> [] \<longrightarrow> outcome \<noteq> Data (Payload (Some q))"
  from no_quiz_outcome [OF out, of s]
  show "\<not> quizStarted (fetchQuizFromVectorStore False outcome s)"
    and "questions (fetchQuizFromVectorStore False outcome s) = []"
    and "questions (fetchQuizFromVectorStore True outcome s) = questions s"
    and "quizStarted (fetchQuizFromVectorStore True outcome s) = quizStarted s"
    by simp_all
qed

theorem delivered_quiz_shape_witness:
  "snd (POST_generate (generator good_reply) start_request)
     = Some \<lparr>status = 200, body = QuizBody [sample_question]\<rparr> \<and>
   length (options sample_question) = 2 \<and>
   questions (fetchQuizFromVectorStore False
      (outcome_of_response \<lparr>status = 200, body = QuizBody [sample_question]\<rparr>)
      finished_session) = [sample_question] \<and>
   snd (POST_generate (generator one_option_reply) start_request)
     = Some \<lparr>status = 400, body = Message ''Invalid quiz format generated by AI.''\<rparr> \<and>
   \<not> quizStarted (fetchQuizFromVectorStore False
      (outcome_of_response \<lparr>status = 400, body = Message ''Invalid quiz format generated by AI.''\<rparr>)
      finished_session) \<and>
   questions (fetchQuizFromVectorStore True
      (outcome_of_response \<lparr>status = 400, body = Message ''Invalid quiz format generated by AI.''\<rparr>)
      finished_session) = [sample_question] \<and>
   questions (fetchQuizFromVectorStore True (Threw None) finished_session) = [sample_question]"
proof -
  let ?good = "\<lparr>status = 200, body = QuizBody [sample_question]\<rparr>"
  let ?bad = "\<lparr>status = 400, body = Message ''Invalid quiz format generated by AI.''\<rparr>"
  have good: "snd (POST_generate (generator good_reply) start_request) = Some ?good"
    by (simp add: POST_generate_samples(1) [OF QuizSchema_samples(1)])
  have bad: "snd (POST_generate (generator one_option_reply) start_request) = Some ?bad"
    by (simp add: POST_generate_samples(2) [OF QuizSchema_samples(4)])
  have two: "length (options sample_question) = 2" by (simp add: sample_question_def)
  have fin: "questions finished_session = [sample_question]" by (simp add: finished_session_def)
  have threw: "\<forall>q. q \<noteq> [] \<longrightarrow> Threw None \<noteq> Data (Payload (Some q))" by simp
  from delivered_quiz_shape [of "generator good_reply" start_request ?good "[sample_question]"
      finished_session]
    delivered_quiz_shape [of "generator one_option_reply" start_request ?bad _ finished_session
      "Threw None"]
    good bad two fin threw
  show ?thesis by simp
qed

subsection \<open>The transient assistant and thread\<close>

text \<open>
  C7. The assistant and the thread are deleted on two paths only: after a reply that
  passes the schema, and after a run that does not complete. Here the route is run on
  a completed run whose reply fails the schema: it answers 400, and the trace ends
  without any deletion. It is run again with a valid reply and a failing deletion of
  the assistant: the error of the deletion is what the caller gets, with its status,
  and the thread is never deleted. The last two runs are the paths that do delete.
\<close>

theorem transient_resources_left_behind:
  "POST_generate (generator one_option_reply) start_request =
     (generate_calls @ [ConsoleError ''API Error in /api/chat:''],
      Some \<lparr>status = 400, body = Message ''Invalid quiz format generated by AI.''\<rparr>) \<and>
   Call (AssistantsCreate (JStr ''vs_1'')) \<in> set generate_calls \<and>
   Call ThreadsCreate \<in> set generate_calls \<and>
   Call (AssistantsDel ''asst_1'') \<notin> set (fst (POST_generate (generator one_option_reply) start_request)) \<and>
   Call (ThreadsDel ''thread_1'') \<notin> set (fst (POST_generate (generator one_option_reply) start_request)) \<and>
   POST_generate
       ((generator good_reply)\<lparr>assistants_del := Some (Err (Some ''busy'') (StatusNumber 503))\<rparr>)
       start_request =
     (generate_calls @ [Call (AssistantsDel ''asst_1''), ConsoleError ''API Error in /api/chat:''],
      Some \<lparr>status = 503, body = Message ''busy''\<rparr>) \<and>
   POST_generate (generator good_reply) start_request =
     (generate_calls @ [Call (AssistantsDel ''asst_1''), Call (ThreadsDel ''thread_1'')],
      Some \<lparr>status = 200, body = QuizBody [sample_question]\<rparr>) \<and>
   POST_generate ((generator good_reply)\<lparr>runs_createAndPoll := Inr ''expired''\<rparr>) start_request =
     (butlast generate_calls
        @ [Call (AssistantsDel ''asst_1''), Call (ThreadsDel ''thread_1''),
           ConsoleError ''API Error in /api/chat:''],
      Some \<lparr>status = 500, body = Message ''Assistant run failed with status: expired''\<rparr>)"
proof -
  have leak: "POST_generate (generator one_option_reply) start_request =
     (generate_calls @ [ConsoleError ''API Error in /api/chat:''],
      Some \<lparr>status = 400, body = Message ''Invalid quiz format generated by AI.''\<rparr>)"
    by (rule POST_generate_samples(2) [OF QuizSchema_samples(4)])
  have created: "Call (AssistantsCreate (JStr ''vs_1'')) \<in> set generate_calls"
    "Call ThreadsCreate \<in> set generate_calls"
    by (simp_all add: generate_calls_def)
  have kept: "Call (AssistantsDel ''asst_1'') \<notin> set (generate_calls @ [ConsoleError ''API Error in /api/chat:''])"
    "Call (ThreadsDel ''thread_1'') \<notin> set (generate_calls @ [ConsoleError ''API Error in /api/chat:''])"
    by (simp_all add: generate_calls_def)
  have surfaced: "POST_generate
       ((generator good_reply)\<lparr>assistants_del := Some (Err (Some ''busy'') (StatusNumber 503))\<rparr>)
       start_request =
     (generate_calls @ [Call (AssistantsDel ''asst_1''), ConsoleError ''API Error in /api/chat:''],
      Some \<lparr>status = 503, body = Message ''busy''\<rparr>)"
    by (simp add: generate_eval property_def QuizSchema_samples(1))
  have deleted: "POST_generate (generator good_reply) start_request =
     (generate_calls @ [Call (AssistantsDel ''asst_1''), Call (ThreadsDel ''thread_1'')],
      Some \<lparr>status = 200, body = QuizBody [sample_question]\<rparr>)"
    by (rule POST_generate_samples(1) [OF QuizSchema_samples(1)])
  have expired: "POST_generate ((generator good_reply)\<lparr>runs_createAndPoll := Inr ''expired''\<rparr>)
       start_request =
     (butlast generate_calls
        @ [Call (AssistantsDel ''asst_1''), Call (ThreadsDel ''thread_1''),
           ConsoleError ''API Error in /api/chat:''],
      Some \<lparr>status = 500, body = Message ''Assistant run failed with status: expired''\<rparr>)"
    by (simp add: generate_eval property_def)
  from leak created kept surfaced deleted expired show ?thesis by simp
qed

subsection \<open>The status of the response\<close>













end
